theory Spec2Isabelle
  imports Complex_Main "HOL-Library.Multiset"
begin

section \<open>Python values\<close>

subsection \<open>Strings\<close>

text \<open>
  A Python \<open>str\<close> is a sequence of Unicode code points and \<open>len\<close> counts code points, so a
  string is modelled as the list of its code points. ASCII literals of the source are written
  \<open>py ''...''\<close>; the Chinese message literals are given by their code points further below.
\<close>

type_synonym pystr = "nat list"

definition py :: "string \<Rightarrow> pystr" where
  "py = map of_char"

text \<open>
  \<open>str.lower()\<close> of a string of ASCII characters: the letters \<open>A\<close> to \<open>Z\<close> become \<open>a\<close> to
  \<open>z\<close>. (For a string with other characters see \<open>lower\<close> below.)
\<close>

definition ascii_lower :: "pystr \<Rightarrow> pystr" where
  "ascii_lower = map (\<lambda>c. if 65 \<le> c \<and> c \<le> 90 then c + 32 else c)"

text \<open>\<open>sep.join(xs)\<close>.\<close>

fun join_with :: "pystr \<Rightarrow> pystr list \<Rightarrow> pystr" where
  "join_with sep [] = []"
| "join_with sep [x] = x"
| "join_with sep (x # y # ys) = x @ sep @ join_with sep (y # ys)"

fun startswith :: "pystr \<Rightarrow> pystr \<Rightarrow> bool" where
  "startswith xs [] = True"
| "startswith [] (p # ps) = False"
| "startswith (x # xs) (p # ps) = (x = p \<and> startswith xs ps)"

definition endswith :: "pystr \<Rightarrow> pystr \<Rightarrow> bool" where
  "endswith xs suffix = startswith (rev xs) (rev suffix)"

text \<open>\<open>sub in xs\<close>: \<open>sub\<close> occurs in \<open>xs\<close> as a contiguous substring.\<close>

fun contains :: "pystr \<Rightarrow> pystr \<Rightarrow> bool" where
  "contains [] sub = (sub = [])"
| "contains (x # xs) sub = (startswith (x # xs) sub \<or> contains xs sub)"

text \<open>\<open>xs.split('\n')\<close>: the pieces between newlines; always at least one piece.\<close>

fun split_lines :: "pystr \<Rightarrow> pystr list" where
  "split_lines [] = [[]]"
| "split_lines (c # cs) =
     (if c = 10 then [] # split_lines cs
      else (case split_lines cs of l # ls \<Rightarrow> (c # l) # ls | [] \<Rightarrow> [[c]]))"

text \<open>\<open>xs.count(sub)\<close>: the number of non-overlapping occurrences, scanning from the left.\<close>

function count_str :: "pystr \<Rightarrow> pystr \<Rightarrow> nat" where
  "count_str xs sub =
     (if sub = [] then length xs + 1
      else if xs = [] then 0
      else if startswith xs sub then 1 + count_str (drop (length sub) xs) sub
      else count_str (tl xs) sub)"
  by pat_completeness auto
termination
  by (relation "measure (\<lambda>(xs, sub). length xs)") auto

text \<open>\<open>str(n)\<close> for a non-negative integer, as the f-strings of the source format it.\<close>

function str_nat :: "nat \<Rightarrow> pystr" where
  "str_nat n = (if n < 10 then [48 + n] else str_nat (n div 10) @ [48 + n mod 10])"
  by pat_completeness auto
termination
  by (relation "measure id") auto

subsection \<open>The records of the analyzer\<close>

record CodeIssue =
  severity :: pystr
  category :: pystr
  message :: pystr
  file_path :: pystr
  line_number :: nat
  code_snippet :: pystr
  fix_suggestion :: pystr
  confidence :: real

record FunctionMetrics =
  name :: pystr
  line_start :: nat
  line_end :: nat
  complexity :: nat
  parameter_count :: nat
  return_complexity :: nat
  has_docstring :: bool
  async_function :: bool
  nested_functions :: nat
  external_calls :: "pystr list"

text \<open>
  \<open>ClassMetrics\<close> has fields \<open>name\<close>, \<open>line_start\<close>, \<open>line_end\<close> and \<open>has_docstring\<close> like
  \<open>FunctionMetrics\<close>; they carry the prefix \<open>class_\<close> here.
\<close>

record ClassMetrics =
  class_name :: pystr
  class_line_start :: nat
  class_line_end :: nat
  method_count :: nat
  property_count :: nat
  inheritance_depth :: nat
  class_has_docstring :: bool
  design_pattern :: "pystr option"

section \<open>Syntax trees\<close>

text \<open>
  The analyzers treat the tree of the \<open>ast\<close> module generically: they test the class of a
  node, read a few attributes and iterate over child nodes. A node is therefore modelled by
  its class name, the attributes the source reads, and the list of its child nodes in the
  order of \<open>ast.iter_child_nodes\<close>. Every child records in \<open>slot\<close> the field of its parent
  that holds it (\<open>body\<close>, \<open>handlers\<close>, \<open>value\<close>, ...), so that \<open>node.body\<close> is the list of
  children whose slot is \<open>body\<close>.

  \<open>ident\<close> is the identifier attribute of the node: \<open>name\<close> of a function or class
  definition, \<open>id\<close> of a \<open>Name\<close>, \<open>attr\<close> of an \<open>Attribute\<close>, \<open>arg\<close> of an \<open>arg\<close>.
  \<open>const\<close> is the \<open>value\<close> of a \<open>Constant\<close>: a string, or some other constant. Line
  numbers are those of the parser, which counts from 1; a node that has no position (the
  module, \<open>arguments\<close>, an operator, a context) carries 0, which the source never reads.
  The trees are those that \<open>ast.parse\<close> builds: every field a class declares is present,
  and every statement and expression has \<open>end_lineno\<close>.
\<close>

datatype constant_value = Const_str pystr | Const_other

datatype ast =
  Node (cls: string) (slot: string) (lineno: nat) (end_lineno: nat) (ident: pystr)
    (const: constant_value) (children: "ast list")

definition field :: "string \<Rightarrow> ast \<Rightarrow> ast list" where
  "field f n = filter (\<lambda>c. slot c = f) (children n)"

fun count_nodes :: "ast \<Rightarrow> nat" where
  "count_nodes (Node c s l e i k cs) = Suc (sum_list (map count_nodes cs))"

text \<open>
  \<open>ast.walk\<close>: breadth first, from a queue (\<open>todo.popleft()\<close>, then
  \<open>todo.extend(iter_child_nodes(node))\<close>).
\<close>

function walk_queue :: "ast list \<Rightarrow> ast list" where
  "walk_queue [] = []"
| "walk_queue (n # todo) = n # walk_queue (todo @ children n)"
  by pat_completeness auto
termination
  apply (relation "measure (\<lambda>q. sum_list (map count_nodes q))")
   apply simp
  subgoal for n todo by (cases n) simp
  done

definition walk :: "ast \<Rightarrow> ast list" where
  "walk n = walk_queue [n]"

text \<open>The nodes of a subtree, structurally: the node, then the subtrees of its children.\<close>

fun subtree :: "ast \<Rightarrow> ast list" where
  "subtree (Node c s l e i k cs) = Node c s l e i k cs # concat (map subtree cs)"

section \<open>The Python runtime\<close>

text \<open>
  What the interpreter and its library contribute, and \<open>src/\<close> does not contain, is a
  parameter of the model:

  \<^item> \<open>ast_parse\<close>, the parser: it yields a tree, or raises \<open>SyntaxError\<close> with its \<open>msg\<close> and
    \<open>lineno\<close>, or raises another exception, given by its text (\<open>ValueError\<close> for a null
    byte, \<open>RecursionError\<close> or \<open>MemoryError\<close> of the parser itself);

  \<^item> \<open>str_targets\<close>, the text \<open>str(node.targets)\<close> of a list of nodes;

  \<^item> \<open>ast_dump\<close>, the text that \<open>ast.dump\<close> returns (\<open>Inr\<close>), or the text of the exception
    it raises (\<open>Inl\<close>): it recurses over the tree it prints;

  \<^item> \<open>unicode_lower\<close>, \<open>str.lower()\<close> on a string that is not ASCII;

  \<^item> \<open>stack_depth\<close> and \<open>recursion_error\<close>, the depth to which a visitor can descend and
    the text of the \<open>RecursionError\<close> raised beyond it, see \<open>NodeVisitor_visit\<close>.
\<close>

datatype parse_result =
  Parsed ast
| Syntax_error pystr "nat option"
| Other_exception pystr

record runtime =
  ast_parse :: "pystr \<Rightarrow> parse_result"
  str_targets :: "ast list \<Rightarrow> pystr"
  ast_dump :: "ast \<Rightarrow> pystr + pystr"
  unicode_lower :: "pystr \<Rightarrow> pystr"
  stack_depth :: nat
  recursion_error :: pystr

text \<open>
  \<open>str.lower()\<close>. On a string of ASCII characters it lowers the letters \<open>A\<close> to \<open>Z\<close>; on
  any other string it follows the Unicode tables of the interpreter (the Kelvin sign becomes
  \<open>k\<close>, a capital sigma is lowered according to its position in the word, a string can
  grow).
\<close>

definition lower :: "runtime \<Rightarrow> pystr \<Rightarrow> pystr" where
  "lower rt s = (if list_all (\<lambda>c. c < 128) s then ascii_lower s else unicode_lower rt s)"

text \<open>
  The text of a list of nodes in CPython 3.11. A node has the default text of an object, its
  class and its address, as in \<open><ast.Name object at 0x7f6ac70c39a0>\<close>; the text of a list
  is the texts of its elements, separated by a comma and a space, between brackets.
  \<open>address\<close> gives the hexadecimal digits of the address of a node.
\<close>

definition object_repr :: "(ast \<Rightarrow> pystr) \<Rightarrow> ast \<Rightarrow> pystr" where
  "object_repr address n =
     py ''<ast.'' @ py (cls n) @ py '' object at 0x'' @ address n @ py ''>''"

definition list_str :: "(ast \<Rightarrow> pystr) \<Rightarrow> ast list \<Rightarrow> pystr" where
  "list_str address ns = py ''['' @ join_with (py '', '') (map (object_repr address) ns) @ py '']''"

text \<open>
  The analyzers change the engine in place, so an exception leaves the engine as the steps
  before it have made it. The outcome of a step is therefore the text of the exception it
  raised, if it raised one, together with the engine. \<open>visit_each\<close> is the loop
  \<open>for item in ...: self.visit(item)\<close>: it ends at the first exception.
\<close>

type_synonym 'e outcome = "pystr option \<times> 'e"

fun visit_each :: "('a \<Rightarrow> 'e \<Rightarrow> 'e outcome) \<Rightarrow> 'a list \<Rightarrow> 'e \<Rightarrow> 'e outcome" where
  "visit_each visit [] e = (None, e)"
| "visit_each visit (item # items) e =
     (case visit item e of
        (Some exc, e') \<Rightarrow> (Some exc, e')
      | (None, e') \<Rightarrow> visit_each visit items e')"

text \<open>
  \<open>ast.NodeVisitor\<close>. \<open>visit(node)\<close> calls the method \<open>visit_<class>\<close> of the visitor when
  it has one and \<open>generic_visit\<close> otherwise; \<open>generic_visit\<close> visits the child nodes in
  order. Every visit method of the four visitors of the source does its own work and then
  ends with \<open>self.generic_visit(node)\<close>. So a visitor is given by \<open>visit_node\<close>, its own
  work at a node (nothing, for a class it has no method for), and a visit does that work and
  then visits the children.

  The visit of a child is a nested call, and the interpreter raises \<open>RecursionError\<close> when
  the calls nest deeper than its limit allows. The room on the stack is counted in nested
  visits: \<open>depth\<close> is the number of levels of the tree that the visit can still enter;
  \<open>analyze_file\<close> starts every visitor with \<open>stack_depth\<close> of the runtime, which stands for
  \<open>sys.getrecursionlimit()\<close> less the frames in use when \<open>analyze_file\<close> is called, in
  units of one level. (How many frames a level takes, two or three, and the frames that the
  work at the deepest node needs on top are not told apart; they decide at which node of a
  tree that is too deep the exception is raised, and so in which state the engine is left,
  not whether it is raised for a tree much deeper than the limit.)
\<close>

fun NodeVisitor_visit ::
  "runtime \<Rightarrow> (ast \<Rightarrow> 'e \<Rightarrow> 'e outcome) \<Rightarrow> nat \<Rightarrow> ast \<Rightarrow> 'e \<Rightarrow> 'e outcome" where
  "NodeVisitor_visit rt visit_node 0 node e = (Some (recursion_error rt), e)"
| "NodeVisitor_visit rt visit_node (Suc depth) (Node c s l el i k cs) e =
     (case visit_node (Node c s l el i k cs) e of
        (Some exc, e') \<Rightarrow> (Some exc, e')
      | (None, e') \<Rightarrow>
          visit_each (\<lambda>child. NodeVisitor_visit rt visit_node depth child) cs e')"

section \<open>Message texts\<close>

text \<open>
  The message literals of the source, as code points. The comment of each gives the line of
  the literal in \<open>professional_code_analyzer.py\<close> and a translation.
\<close>

definition naming_get :: pystr where \<comment> \<open>line 153: name suggests fetching data, but there is no return statement\<close>
  "naming_get = [0x51FD, 0x6570, 0x540D, 0x6697, 0x793A, 0x83B7, 0x53D6, 0x6570, 0x636E,
     0xFF0C, 0x4F46, 0x6CA1, 0x6709, 0x8FD4, 0x56DE, 0x8BED, 0x53E5]"

definition naming_set :: pystr where \<comment> \<open>line 156: name suggests setting data, but there is no assignment\<close>
  "naming_set = [0x51FD, 0x6570, 0x540D, 0x6697, 0x793A, 0x8BBE, 0x7F6E, 0x6570, 0x636E,
     0xFF0C, 0x4F46, 0x6CA1, 0x6709, 0x8D4B, 0x503C, 0x64CD, 0x4F5C]"

definition naming_bool :: pystr where \<comment> \<open>line 160: a boolean function should return a value\<close>
  "naming_bool = [0x5E03, 0x5C14, 0x51FD, 0x6570, 0x5E94, 0x8BE5, 0x6709, 0x8FD4, 0x56DE,
     0x503C]"

definition naming_save :: pystr where \<comment> \<open>line 163: name suggests saving, but no file or database operation was found\<close>
  "naming_save = [0x51FD, 0x6570, 0x540D, 0x6697, 0x793A, 0x4FDD, 0x5B58, 0x64CD, 0x4F5C,
     0xFF0C, 0x4F46, 0x6CA1, 0x6709, 0x53D1, 0x73B0, 0x6587, 0x4EF6, 0x6216, 0x6570, 0x636E,
     0x5E93, 0x64CD, 0x4F5C]"

definition msg_naming_prefix :: pystr where \<comment> \<open>line 169: naming mismatch: \<close>
  "msg_naming_prefix = [0x547D, 0x540D, 0x4E0D, 0x4E00, 0x81F4, 0x3A, 0x20]"

definition fix_naming_pre :: pystr where \<comment> \<open>line 173: consider renaming function '\<close>
  "fix_naming_pre = [0x8003, 0x8651, 0x91CD, 0x547D, 0x540D, 0x51FD, 0x6570, 0x20, 0x27]"

definition fix_naming_post :: pystr where \<comment> \<open>line 173: ' or adjusting its body to match the name\<close>
  "fix_naming_post = [0x27, 0x20, 0x6216, 0x8C03, 0x6574, 0x51FD, 0x6570, 0x5B9E, 0x73B0,
     0x4EE5, 0x5339, 0x914D, 0x547D, 0x540D, 0x610F, 0x56FE]"

definition msg_complexity_pre :: pystr where \<comment> \<open>line 221: function too complex (cyclomatic complexity: \<close>
  "msg_complexity_pre = [0x51FD, 0x6570, 0x590D, 0x6742, 0x5EA6, 0x8FC7, 0x9AD8, 0x20, 0x28,
     0x5708, 0x590D, 0x6742, 0x5EA6, 0x3A, 0x20]"

definition fix_complexity :: pystr where \<comment> \<open>line 225: consider splitting the function into smaller single-purpose functions\<close>
  "fix_complexity = [0x8003, 0x8651, 0x5C06, 0x6B64, 0x51FD, 0x6570, 0x62C6, 0x5206, 0x4E3A,
     0x591A, 0x4E2A, 0x66F4, 0x5C0F, 0x7684, 0x51FD, 0x6570, 0xFF0C, 0x6BCF, 0x4E2A, 0x51FD,
     0x6570, 0x8D1F, 0x8D23, 0x5355, 0x4E00, 0x804C, 0x8D23]"

definition msg_params_pre :: pystr where \<comment> \<open>line 233: too many function parameters (\<close>
  "msg_params_pre = [0x51FD, 0x6570, 0x53C2, 0x6570, 0x8FC7, 0x591A, 0x20, 0x28]"

definition msg_params_post :: pystr where \<comment> \<open>line 233:  parameters)\<close>
  "msg_params_post = [0x4E2A, 0x53C2, 0x6570, 0x29]"

definition fix_params :: pystr where \<comment> \<open>line 237: consider a data class, dict or config object to reduce the parameters\<close>
  "fix_params = [0x8003, 0x8651, 0x4F7F, 0x7528, 0x6570, 0x636E, 0x7C7B, 0x3001, 0x5B57,
     0x5178, 0x6216, 0x914D, 0x7F6E, 0x5BF9, 0x8C61, 0x6765, 0x51CF, 0x5C11, 0x53C2, 0x6570,
     0x6570, 0x91CF]"

definition msg_bare_except :: pystr where \<comment> \<open>line 251: a bare except clause is used and may hide important errors\<close>
  "msg_bare_except = [0x4F7F, 0x7528, 0x4E86, 0x88F8, 0x65, 0x78, 0x63, 0x65, 0x70, 0x74,
     0x5B50, 0x53E5, 0xFF0C, 0x53EF, 0x80FD, 0x63A9, 0x76D6, 0x91CD, 0x8981, 0x9519, 0x8BEF]"

definition fix_bare_except :: pystr where \<comment> \<open>line 255: name the exception types, as in 'except ValueError:'\<close>
  "fix_bare_except = [0x6307, 0x5B9A, 0x5177, 0x4F53, 0x7684, 0x5F02, 0x5E38, 0x7C7B, 0x578B,
     0xFF0C, 0x5982, 0x20, 0x27, 0x65, 0x78, 0x63, 0x65, 0x70, 0x74, 0x20, 0x56, 0x61, 0x6C,
     0x75, 0x65, 0x45, 0x72, 0x72, 0x6F, 0x72, 0x3A, 0x27, 0x20, 0x6216, 0x20, 0x27, 0x65,
     0x78, 0x63, 0x65, 0x70, 0x74, 0x20, 0x28, 0x54, 0x79, 0x70, 0x65, 0x45, 0x72, 0x72,
     0x6F, 0x72, 0x2C, 0x20, 0x56, 0x61, 0x6C, 0x75, 0x65, 0x45, 0x72, 0x72, 0x6F, 0x72,
     0x29, 0x3A, 0x27]"

definition msg_nested_loop :: pystr where \<comment> \<open>line 305: nested loop found, possibly O(n^2) or worse\<close>
  "msg_nested_loop = [0x53D1, 0x73B0, 0x5D4C, 0x5957, 0x5FAA, 0x73AF, 0xFF0C, 0x53EF, 0x80FD,
     0x5BFC, 0x81F4, 0x4F, 0x28, 0x6E, 0xB2, 0x29, 0x6216, 0x66F4, 0x9AD8, 0x590D, 0x6742,
     0x5EA6]"

definition fix_nested_loop :: pystr where \<comment> \<open>line 309: consider a better algorithm: hash tables, precomputation or other data structures\<close>
  "fix_nested_loop = [0x8003, 0x8651, 0x4F18, 0x5316, 0x7B97, 0x6CD5, 0xFF0C, 0x4F7F, 0x7528,
     0x54C8, 0x5E0C, 0x8868, 0x3001, 0x9884, 0x8BA1, 0x7B97, 0x6216, 0x5176, 0x4ED6, 0x6570,
     0x636E, 0x7ED3, 0x6784, 0x6765, 0x51CF, 0x5C11, 0x65F6, 0x95F4, 0x590D, 0x6742, 0x5EA6]"

definition msg_string_concat :: pystr where \<comment> \<open>line 319: string concatenation inside a loop performs poorly\<close>
  "msg_string_concat = [0x5FAA, 0x73AF, 0x4E2D, 0x8FDB, 0x884C, 0x5B57, 0x7B26, 0x4E32,
     0x62FC, 0x63A5, 0xFF0C, 0x6027, 0x80FD, 0x8F83, 0x5DEE]"

definition fix_string_concat :: pystr where \<comment> \<open>line 323: use ''.join() or an f-string outside the loop\<close>
  "fix_string_concat = [0x4F7F, 0x7528, 0x20, 0x27, 0x27, 0x2E, 0x6A, 0x6F, 0x69, 0x6E, 0x28,
     0x29, 0x20, 0x6216, 0x20, 0x66, 0x2D, 0x73, 0x74, 0x72, 0x69, 0x6E, 0x67, 0x20, 0x5728,
     0x5FAA, 0x73AF, 0x5916, 0x8FDB, 0x884C, 0x5B57, 0x7B26, 0x4E32, 0x64CD, 0x4F5C]"

definition msg_hardcoded_secret :: pystr where \<comment> \<open>line 361: hard-coded sensitive information detected\<close>
  "msg_hardcoded_secret = [0x68C0, 0x6D4B, 0x5230, 0x786C, 0x7F16, 0x7801, 0x7684, 0x654F,
     0x611F, 0x4FE1, 0x606F]"

definition fix_hardcoded_secret :: pystr where \<comment> \<open>line 365: store secrets in environment variables, config files or a key manager\<close>
  "fix_hardcoded_secret = [0x4F7F, 0x7528, 0x73AF, 0x5883, 0x53D8, 0x91CF, 0x3001, 0x914D,
     0x7F6E, 0x6587, 0x4EF6, 0x6216, 0x5BC6, 0x94A5, 0x7BA1, 0x7406, 0x670D, 0x52A1, 0x6765,
     0x5B58, 0x50A8, 0x654F, 0x611F, 0x4FE1, 0x606F]"

definition msg_eval :: pystr where \<comment> \<open>line 379: eval() carries a code-injection risk\<close>
  "msg_eval = [0x4F7F, 0x7528, 0x65, 0x76, 0x61, 0x6C, 0x28, 0x29, 0x51FD, 0x6570, 0x5B58,
     0x5728, 0x4EE3, 0x7801, 0x6CE8, 0x5165, 0x98CE, 0x9669]"

definition fix_eval :: pystr where \<comment> \<open>line 383: use ast.literal_eval() or another safe alternative\<close>
  "fix_eval = [0x4F7F, 0x7528, 0x61, 0x73, 0x74, 0x2E, 0x6C, 0x69, 0x74, 0x65, 0x72, 0x61,
     0x6C, 0x5F, 0x65, 0x76, 0x61, 0x6C, 0x28, 0x29, 0x6216, 0x5176, 0x4ED6, 0x5B89, 0x5168,
     0x7684, 0x66FF, 0x4EE3, 0x65B9, 0x6848]"

definition msg_exec :: pystr where \<comment> \<open>line 390: exec() carries a code-execution risk\<close>
  "msg_exec = [0x4F7F, 0x7528, 0x65, 0x78, 0x65, 0x63, 0x28, 0x29, 0x51FD, 0x6570, 0x5B58,
     0x5728, 0x4EE3, 0x7801, 0x6267, 0x884C, 0x98CE, 0x9669]"

definition fix_exec :: pystr where \<comment> \<open>line 394: redesign the logic to avoid dynamic code execution\<close>
  "fix_exec = [0x91CD, 0x65B0, 0x8BBE, 0x8BA1, 0x4EE3, 0x7801, 0x903B, 0x8F91, 0xFF0C,
     0x907F, 0x514D, 0x52A8, 0x6001, 0x4EE3, 0x7801, 0x6267, 0x884C]"

definition msg_class_pre :: pystr where \<comment> \<open>line 435: class too large (\<close>
  "msg_class_pre = [0x7C7B, 0x8FC7, 0x4E8E, 0x5E9E, 0x5927, 0x20, 0x28]"

definition msg_class_post :: pystr where \<comment> \<open>line 435:  methods)\<close>
  "msg_class_post = [0x4E2A, 0x65B9, 0x6CD5, 0x29]"

definition fix_class :: pystr where \<comment> \<open>line 439: consider splitting the class, following single responsibility\<close>
  "fix_class = [0x8003, 0x8651, 0x5C06, 0x7C7B, 0x62C6, 0x5206, 0x4E3A, 0x591A, 0x4E2A,
     0x66F4, 0x5C0F, 0x7684, 0x7C7B, 0xFF0C, 0x9075, 0x5FAA, 0x5355, 0x4E00, 0x804C, 0x8D23,
     0x539F, 0x5219]"

definition err_not_found :: pystr where \<comment> \<open>line 76: file does not exist: \<close>
  "err_not_found = [0x6587, 0x4EF6, 0x4E0D, 0x5B58, 0x5728, 0x3A, 0x20]"

definition err_syntax_pre :: pystr where \<comment> \<open>line 112: syntax error: \<close>
  "err_syntax_pre = [0x8BED, 0x6CD5, 0x9519, 0x8BEF, 0x3A, 0x20]"

definition err_syntax_mid :: pystr where \<comment> \<open>line 112:  (line \<close>
  "err_syntax_mid = [0x20, 0x28, 0x7B2C]"

definition err_syntax_post :: pystr where \<comment> \<open>line 112: )\<close>
  "err_syntax_post = [0x884C, 0x29]"

definition err_failed :: pystr where \<comment> \<open>line 117: analysis failed: \<close>
  "err_failed = [0x5206, 0x6790, 0x5931, 0x8D25, 0x3A, 0x20]"

definition action_long_functions :: pystr where \<comment> \<open>line 661: refactor long functions into smaller ones\<close>
  "action_long_functions = [0x91CD, 0x6784, 0x957F, 0x51FD, 0x6570, 0xFF0C, 0x5C06, 0x5176,
     0x62C6, 0x5206, 0x4E3A, 0x66F4, 0x5C0F, 0x7684, 0x51FD, 0x6570]"

definition action_missing_tests :: pystr where \<comment> \<open>line 664: increase unit-test coverage\<close>
  "action_missing_tests = [0x589E, 0x52A0, 0x5355, 0x5143, 0x6D4B, 0x8BD5, 0x8986, 0x76D6,
     0x7387]"

definition action_poor_documentation :: pystr where \<comment> \<open>line 667: improve documentation and comments\<close>
  "action_poor_documentation = [0x6539, 0x5584, 0x4EE3, 0x7801, 0x6587, 0x6863, 0x548C,
     0x6CE8, 0x91CA]"

definition sug_length_pre :: pystr where \<comment> \<open>line 769: function '\<close>
  "sug_length_pre = [0x51FD, 0x6570, 0x20, 0x27]"

definition sug_length_post :: pystr where \<comment> \<open>line 769: ' is too long, consider splitting it\<close>
  "sug_length_post = [0x27, 0x20, 0x8FC7, 0x957F, 0xFF0C, 0x5EFA, 0x8BAE, 0x62C6, 0x5206]"

definition sug_length_fix :: pystr where \<comment> \<open>line 770: split the function into several smaller ones\<close>
  "sug_length_fix = [0x5C06, 0x51FD, 0x6570, 0x62C6, 0x5206, 0x4E3A, 0x591A, 0x4E2A, 0x66F4,
     0x5C0F, 0x7684, 0x51FD, 0x6570]"

definition sug_params_post :: pystr where \<comment> \<open>line 777: ' has too many parameters\<close>
  "sug_params_post = [0x27, 0x20, 0x53C2, 0x6570, 0x8FC7, 0x591A]"

definition sug_params_fix :: pystr where \<comment> \<open>line 778: use a data class or config object to reduce the parameters\<close>
  "sug_params_fix = [0x4F7F, 0x7528, 0x6570, 0x636E, 0x7C7B, 0x6216, 0x914D, 0x7F6E, 0x5BF9,
     0x8C61, 0x6765, 0x51CF, 0x5C11, 0x53C2, 0x6570, 0x6570, 0x91CF]"

definition sug_class_pre :: pystr where \<comment> \<open>line 786: class '\<close>
  "sug_class_pre = [0x7C7B, 0x20, 0x27]"

definition sug_class_post :: pystr where \<comment> \<open>line 786: ' is too large\<close>
  "sug_class_post = [0x27, 0x20, 0x8FC7, 0x4E8E, 0x5E9E, 0x5927]"

definition sug_class_fix :: pystr where \<comment> \<open>line 787: consider splitting the class, following single responsibility\<close>
  "sug_class_fix = [0x8003, 0x8651, 0x5C06, 0x7C7B, 0x62C6, 0x5206, 0xFF0C, 0x9075, 0x5FAA,
     0x5355, 0x4E00, 0x804C, 0x8D23, 0x539F, 0x5219]"

section \<open>The analysis engine\<close>

text \<open>
  \<open>CodeIntelligenceEngine\<close> holds three lists that the analyzers append to. Every method
  takes the engine and returns it updated; a method that can raise returns an outcome.
\<close>

record CodeIntelligenceEngine =
  issues :: "CodeIssue list"
  function_metrics :: "FunctionMetrics list"
  class_metrics :: "ClassMetrics list"

text \<open>
  \<open>self.lines[node.lineno-1] if node.lineno <= len(self.lines) else ""\<close>. (At line 0, which
  the parser does not produce, the index \<open>-1\<close> is the last line.)
\<close>

definition snippet :: "pystr list \<Rightarrow> nat \<Rightarrow> pystr" where
  "snippet lines line =
     (if line \<le> length lines then (if line = 0 then last lines else lines ! (line - 1))
      else [])"

definition append_issue :: "CodeIssue \<Rightarrow> CodeIntelligenceEngine \<Rightarrow> CodeIntelligenceEngine" where
  "append_issue i e = e\<lparr>issues := issues e @ [i]\<rparr>"

subsection \<open>Business logic\<close>

definition extract_function_operations :: "ast \<Rightarrow> pystr set" where
  "extract_function_operations node =
     fold (\<lambda>child operations.
        if cls child = ''Return'' then insert (py ''return'') operations
        else if cls child = ''Assign'' then insert (py ''assignment'') operations
        else if cls child = ''Call'' then
          (case field ''func'' child of
             [] \<Rightarrow> operations
           | func # _ \<Rightarrow>
               if cls func = ''Attribute'' then
                 (if ident func \<in> set [py ''open'', py ''read'', py ''write'', py ''close'']
                  then insert (py ''file_io'') operations
                  else if ident func \<in> set [py ''execute'', py ''query'', py ''commit'']
                  then insert (py ''database'') operations
                  else operations)
               else operations)
        else operations)
       (walk node) {}"

definition check_function_naming_consistency ::
  "runtime \<Rightarrow> pystr list \<Rightarrow> pystr \<Rightarrow> ast \<Rightarrow> CodeIntelligenceEngine \<Rightarrow> CodeIntelligenceEngine"
  where
  "check_function_naming_consistency rt lines fp node e =
     (let func_name = lower rt (ident node);
          operations = extract_function_operations node;
          naming_issues =
            (if startswith func_name (py ''get_'') \<and> py ''return'' \<notin> operations
             then [naming_get] else [])
            @ (if startswith func_name (py ''set_'') \<and> py ''assignment'' \<notin> operations
               then [naming_set] else [])
            @ (if (startswith func_name (py ''is_'') \<or> startswith func_name (py ''has_''))
                  \<and> py ''return'' \<notin> operations
               then [naming_bool] else [])
            @ (if contains func_name (py ''save'') \<and> py ''file_io'' \<notin> operations
                  \<and> py ''database'' \<notin> operations
               then [naming_save] else [])
      in fold (\<lambda>issue. append_issue
            \<lparr>severity = py ''warning'', category = py ''logic'',
             message = msg_naming_prefix @ issue, file_path = fp,
             line_number = lineno node, code_snippet = snippet lines (lineno node),
             fix_suggestion = fix_naming_pre @ ident node @ fix_naming_post,
             confidence = 0.7\<rparr>)
           naming_issues e)"

definition calculate_cyclomatic_complexity :: "ast \<Rightarrow> nat" where
  "calculate_cyclomatic_complexity node =
     fold (\<lambda>child complexity.
        if cls child \<in> set [''If'', ''While'', ''For'', ''AsyncFor'', ''With'', ''AsyncWith'']
        then complexity + 1
        else if cls child = ''Try'' then complexity + length (field ''handlers'' child)
        else if cls child \<in> set [''And'', ''Or''] then complexity + 1
        else complexity)
       (walk node) 1"

definition count_return_statements :: "ast \<Rightarrow> nat" where
  "count_return_statements node = length (filter (\<lambda>n. cls n = ''Return'') (walk node))"

definition extract_external_calls :: "ast \<Rightarrow> pystr list" where
  "extract_external_calls node =
     fold (\<lambda>child calls.
        if cls child = ''Call'' then
          (case field ''func'' child of
             [] \<Rightarrow> calls
           | func # _ \<Rightarrow>
               if cls func = ''Name'' then calls @ [ident func]
               else if cls func = ''Attribute'' then calls @ [ident func]
               else calls)
        else calls)
       (walk node) []"

text \<open>
  \<open>ast.get_docstring\<close>: the first statement of the body, when it is an expression statement
  holding a string constant. (The source only tests the result against \<open>None\<close>.)
\<close>

definition get_docstring :: "ast \<Rightarrow> pystr option" where
  "get_docstring node =
     (case field ''body'' node of
        [] \<Rightarrow> None
      | stmt # _ \<Rightarrow>
          if cls stmt = ''Expr'' then
            (case field ''value'' stmt of
               [] \<Rightarrow> None
             | v # _ \<Rightarrow>
                 if cls v = ''Constant'' then
                   (case const v of Const_str text \<Rightarrow> Some text | Const_other \<Rightarrow> None)
                 else None)
          else None)"

text \<open>\<open>node.args.args\<close>: the positional parameters of the \<open>arguments\<close> node.\<close>

definition args_args :: "ast \<Rightarrow> ast list" where
  "args_args node = (case field ''args'' node of [] \<Rightarrow> [] | a # _ \<Rightarrow> field ''args'' a)"

definition analyze_function_responsibility ::
  "pystr list \<Rightarrow> pystr \<Rightarrow> ast \<Rightarrow> CodeIntelligenceEngine \<Rightarrow> CodeIntelligenceEngine" where
  "analyze_function_responsibility lines fp node e =
     (let complexity = calculate_cyclomatic_complexity node;
          param_count = length (args_args node);
          func_metrics =
            \<lparr>name = ident node, line_start = lineno node, line_end = end_lineno node,
             complexity = complexity, parameter_count = param_count,
             return_complexity = count_return_statements node,
             has_docstring = (get_docstring node \<noteq> None),
             async_function = (cls node = ''AsyncFunctionDef''),
             nested_functions =
               length (filter (\<lambda>n. cls n = ''FunctionDef'') (field ''body'' node)),
             external_calls = extract_external_calls node\<rparr>;
          e1 = e\<lparr>function_metrics := function_metrics e @ [func_metrics]\<rparr>;
          e2 = (if complexity > 10 then append_issue
                  \<lparr>severity = py ''warning'', category = py ''architecture'',
                   message = msg_complexity_pre @ str_nat complexity @ py '')'',
                   file_path = fp, line_number = lineno node,
                   code_snippet = snippet lines (lineno node),
                   fix_suggestion = fix_complexity, confidence = 0.9\<rparr> e1
                else e1)
      in if param_count > 5 then append_issue
            \<lparr>severity = py ''suggestion'', category = py ''architecture'',
             message = msg_params_pre @ str_nat param_count @ msg_params_post,
             file_path = fp, line_number = lineno node,
             code_snippet = snippet lines (lineno node),
             fix_suggestion = fix_params, confidence = 0.8\<rparr> e2
         else e2)"

definition bare_excepts :: "ast \<Rightarrow> ast list" where
  "bare_excepts node =
     filter (\<lambda>n. cls n = ''ExceptHandler'' \<and> field ''type'' n = []) (walk node)"

definition check_error_handling_consistency ::
  "pystr list \<Rightarrow> pystr \<Rightarrow> ast \<Rightarrow> CodeIntelligenceEngine \<Rightarrow> CodeIntelligenceEngine" where
  "check_error_handling_consistency lines fp node e =
     fold (\<lambda>except_node. append_issue
        \<lparr>severity = py ''warning'', category = py ''logic'',
         message = msg_bare_except, file_path = fp,
         line_number = lineno except_node,
         code_snippet = snippet lines (lineno except_node),
         fix_suggestion = fix_bare_except, confidence = 0.9\<rparr>)
       (bare_excepts node) e"

text \<open>
  \<open>visit_FunctionDef\<close>, up to its closing \<open>generic_visit\<close>; the business logic visitor has
  no other visit method.
\<close>

definition visit_FunctionDef ::
  "runtime \<Rightarrow> pystr list \<Rightarrow> pystr \<Rightarrow> ast \<Rightarrow> CodeIntelligenceEngine \<Rightarrow> CodeIntelligenceEngine"
  where
  "visit_FunctionDef rt lines fp node e =
     check_error_handling_consistency lines fp node
       (analyze_function_responsibility lines fp node
         (check_function_naming_consistency rt lines fp node e))"

definition BusinessLogicVisitor ::
  "runtime \<Rightarrow> pystr list \<Rightarrow> pystr \<Rightarrow> ast \<Rightarrow> CodeIntelligenceEngine
     \<Rightarrow> CodeIntelligenceEngine outcome" where
  "BusinessLogicVisitor rt lines fp node e =
     (if cls node = ''FunctionDef'' then (None, visit_FunctionDef rt lines fp node e)
      else (None, e))"

definition analyze_business_logic ::
  "runtime \<Rightarrow> ast \<Rightarrow> pystr list \<Rightarrow> pystr \<Rightarrow> CodeIntelligenceEngine
     \<Rightarrow> CodeIntelligenceEngine outcome" where
  "analyze_business_logic rt tree lines fp e =
     NodeVisitor_visit rt (BusinessLogicVisitor rt lines fp) (stack_depth rt) tree e"

subsection \<open>Performance\<close>

definition find_string_concatenations :: "ast \<Rightarrow> ast list" where
  "find_string_concatenations node =
     filter (\<lambda>child. cls child = ''BinOp'' \<and>
               (case field ''op'' child of [] \<Rightarrow> False | op # _ \<Rightarrow> cls op = ''Add''))
       (walk node)"

text \<open>
  \<open>visit_For\<close>, up to its closing \<open>generic_visit\<close>. In \<open>nested_loops\<close> the test \<open>n != node\<close>
  compares objects, so it removes the visited node itself, which \<open>ast.walk\<close> yields first.
\<close>

definition visit_For ::
  "pystr list \<Rightarrow> pystr \<Rightarrow> ast \<Rightarrow> CodeIntelligenceEngine \<Rightarrow> CodeIntelligenceEngine" where
  "visit_For lines fp node e =
     (let nested_loops = filter (\<lambda>n. cls n \<in> set [''For'', ''While'']) (tl (walk node));
          e1 = (if nested_loops \<noteq> [] then append_issue
                  \<lparr>severity = py ''warning'', category = py ''performance'',
                   message = msg_nested_loop, file_path = fp, line_number = lineno node,
                   code_snippet = snippet lines (lineno node),
                   fix_suggestion = fix_nested_loop, confidence = 0.8\<rparr> e
                else e);
          string_concats = find_string_concatenations node
      in if string_concats \<noteq> [] then append_issue
            \<lparr>severity = py ''warning'', category = py ''performance'',
             message = msg_string_concat, file_path = fp, line_number = lineno node,
             code_snippet = snippet lines (lineno node),
             fix_suggestion = fix_string_concat, confidence = 0.9\<rparr> e1
         else e1)"

text \<open>The performance visitor has \<open>visit_For\<close> and no other visit method.\<close>

definition PerformanceVisitor ::
  "pystr list \<Rightarrow> pystr \<Rightarrow> ast \<Rightarrow> CodeIntelligenceEngine \<Rightarrow> CodeIntelligenceEngine outcome"
  where
  "PerformanceVisitor lines fp node e =
     (if cls node = ''For'' then (None, visit_For lines fp node e) else (None, e))"

definition analyze_performance_patterns ::
  "runtime \<Rightarrow> ast \<Rightarrow> pystr list \<Rightarrow> pystr \<Rightarrow> CodeIntelligenceEngine
     \<Rightarrow> CodeIntelligenceEngine outcome" where
  "analyze_performance_patterns rt tree lines fp e =
     NodeVisitor_visit rt (PerformanceVisitor lines fp) (stack_depth rt) tree e"

subsection \<open>Security\<close>

definition secret_keywords :: "pystr list" where
  "secret_keywords = [py ''password'', py ''secret'', py ''key'', py ''token'']"

text \<open>The condition of \<open>visit_Assign\<close> under which the issue is appended.\<close>

definition hardcoded_secret :: "runtime \<Rightarrow> ast \<Rightarrow> bool" where
  "hardcoded_secret rt node =
     (case field ''value'' node of
        [] \<Rightarrow> False
      | v # _ \<Rightarrow>
          cls v = ''Constant'' \<and>
          (case const v of
             Const_other \<Rightarrow> False
           | Const_str val \<Rightarrow>
               length val > 8 \<and>
               list_ex (\<lambda>keyword. contains (lower rt (str_targets rt (field ''targets'' node))) keyword)
                 secret_keywords))"

text \<open>\<open>visit_Assign\<close> and \<open>visit_Call\<close>, each up to its closing \<open>generic_visit\<close>.\<close>

definition visit_Assign ::
  "runtime \<Rightarrow> pystr list \<Rightarrow> pystr \<Rightarrow> ast \<Rightarrow> CodeIntelligenceEngine \<Rightarrow> CodeIntelligenceEngine"
  where
  "visit_Assign rt lines fp node e =
     (if hardcoded_secret rt node then append_issue
        \<lparr>severity = py ''critical'', category = py ''security'',
         message = msg_hardcoded_secret, file_path = fp, line_number = lineno node,
         code_snippet = snippet lines (lineno node),
         fix_suggestion = fix_hardcoded_secret, confidence = 0.8\<rparr> e
      else e)"

definition visit_Call ::
  "pystr list \<Rightarrow> pystr \<Rightarrow> ast \<Rightarrow> CodeIntelligenceEngine \<Rightarrow> CodeIntelligenceEngine" where
  "visit_Call lines fp node e =
     (case field ''func'' node of
        [] \<Rightarrow> e
      | func # _ \<Rightarrow>
          if cls func = ''Name'' then
            (if ident func = py ''eval'' then append_issue
               \<lparr>severity = py ''critical'', category = py ''security'',
                message = msg_eval, file_path = fp, line_number = lineno node,
                code_snippet = snippet lines (lineno node),
                fix_suggestion = fix_eval, confidence = 0.95\<rparr> e
             else if ident func = py ''exec'' then append_issue
               \<lparr>severity = py ''critical'', category = py ''security'',
                message = msg_exec, file_path = fp, line_number = lineno node,
                code_snippet = snippet lines (lineno node),
                fix_suggestion = fix_exec, confidence = 0.95\<rparr> e
             else e)
          else e)"

text \<open>The security visitor has these two visit methods.\<close>

definition SecurityVisitor ::
  "runtime \<Rightarrow> pystr list \<Rightarrow> pystr \<Rightarrow> ast \<Rightarrow> CodeIntelligenceEngine
     \<Rightarrow> CodeIntelligenceEngine outcome" where
  "SecurityVisitor rt lines fp node e =
     (if cls node = ''Assign'' then (None, visit_Assign rt lines fp node e)
      else if cls node = ''Call'' then (None, visit_Call lines fp node e)
      else (None, e))"

definition analyze_security_risks ::
  "runtime \<Rightarrow> ast \<Rightarrow> pystr list \<Rightarrow> pystr \<Rightarrow> CodeIntelligenceEngine
     \<Rightarrow> CodeIntelligenceEngine outcome" where
  "analyze_security_risks rt tree lines fp e =
     NodeVisitor_visit rt (SecurityVisitor rt lines fp) (stack_depth rt) tree e"

subsection \<open>Architecture\<close>

text \<open>
  \<open>any('instance' in str(ast.dump(m)) for m in methods)\<close>: the methods are printed one
  after the other until the text of one contains \<open>instance\<close>; an exception of \<open>ast.dump\<close>
  ends the search.
\<close>

fun any_dump_contains :: "runtime \<Rightarrow> pystr \<Rightarrow> ast list \<Rightarrow> pystr + bool" where
  "any_dump_contains rt sub [] = Inr False"
| "any_dump_contains rt sub (m # methods) =
     (case ast_dump rt m of
        Inl exc \<Rightarrow> Inl exc
      | Inr text \<Rightarrow> if contains text sub then Inr True else any_dump_contains rt sub methods)"

text \<open>
  \<open>_detect_design_pattern\<close>: the pattern, or the exception of \<open>ast.dump\<close>, which is called
  only when there is a method \<open>__new__\<close>.
\<close>

definition detect_design_pattern :: "runtime \<Rightarrow> ast \<Rightarrow> ast list \<Rightarrow> pystr + pystr option" where
  "detect_design_pattern rt class_node methods =
     (let method_names = map ident methods;
          other_patterns =
            (if list_ex (\<lambda>nm. startswith nm (py ''create_'')) method_names
             then Some (py ''Factory'')
             else if py ''notify'' \<in> set method_names \<and> py ''subscribe'' \<in> set method_names
             then Some (py ''Observer'')
             else None)
      in if py ''__new__'' \<in> set method_names then
           (case any_dump_contains rt (py ''instance'') methods of
              Inl exc \<Rightarrow> Inl exc
            | Inr found \<Rightarrow> Inr (if found then Some (py ''Singleton'') else other_patterns))
         else Inr other_patterns)"

text \<open>
  \<open>visit_ClassDef\<close>, up to its closing \<open>generic_visit\<close>. The pattern is computed while
  the record of the class is built, before anything is appended.
\<close>

definition visit_ClassDef ::
  "runtime \<Rightarrow> pystr list \<Rightarrow> pystr \<Rightarrow> ast \<Rightarrow> CodeIntelligenceEngine
     \<Rightarrow> CodeIntelligenceEngine outcome" where
  "visit_ClassDef rt lines fp node e =
     (let methods = filter (\<lambda>n. cls n = ''FunctionDef'') (field ''body'' node);
          properties = filter (\<lambda>n. cls n = ''Assign'') (field ''body'' node)
      in case detect_design_pattern rt node methods of
           Inl exc \<Rightarrow> (Some exc, e)
         | Inr pattern \<Rightarrow>
             (let cm = \<lparr>class_name = ident node, class_line_start = lineno node,
                        class_line_end = end_lineno node, method_count = length methods,
                        property_count = length properties,
                        inheritance_depth = length (field ''bases'' node),
                        class_has_docstring = (get_docstring node \<noteq> None),
                        design_pattern = pattern\<rparr>;
                  e1 = e\<lparr>class_metrics := class_metrics e @ [cm]\<rparr>
              in (None,
                  if length methods > 15 then append_issue
                    \<lparr>severity = py ''warning'', category = py ''architecture'',
                     message = msg_class_pre @ str_nat (length methods) @ msg_class_post,
                     file_path = fp, line_number = lineno node,
                     code_snippet = snippet lines (lineno node),
                     fix_suggestion = fix_class, confidence = 0.8\<rparr> e1
                  else e1)))"

text \<open>The architecture visitor has this one visit method.\<close>

definition ArchitectureVisitor ::
  "runtime \<Rightarrow> pystr list \<Rightarrow> pystr \<Rightarrow> ast \<Rightarrow> CodeIntelligenceEngine
     \<Rightarrow> CodeIntelligenceEngine outcome" where
  "ArchitectureVisitor rt lines fp node e =
     (if cls node = ''ClassDef'' then visit_ClassDef rt lines fp node e else (None, e))"

definition analyze_architecture_decisions ::
  "runtime \<Rightarrow> ast \<Rightarrow> pystr list \<Rightarrow> pystr \<Rightarrow> CodeIntelligenceEngine
     \<Rightarrow> CodeIntelligenceEngine outcome" where
  "analyze_architecture_decisions rt tree lines fp e =
     NodeVisitor_visit rt (ArchitectureVisitor rt lines fp) (stack_depth rt) tree e"

subsection \<open>Quality score\<close>

text \<open>
  Python's floats are idealised as real numbers. \<open>round(score, 1)\<close> rounds to the nearest
  tenth, a tie going to the even neighbour.
\<close>

definition round_half_even :: "real \<Rightarrow> int" where
  "round_half_even x =
     (let f = \<lfloor>x\<rfloor>; d = x - of_int f in
      if d < 1/2 then f else if 1/2 < d then f + 1 else if even f then f else f + 1)"

definition round1 :: "real \<Rightarrow> real" where
  "round1 x = of_int (round_half_even (x * 10)) / 10"

definition calculate_quality_score :: "CodeIntelligenceEngine \<Rightarrow> real" where
  "calculate_quality_score e =
     (if issues e = [] then 100
      else
        let total_penalty =
              fold (\<lambda>issue total_penalty.
                 if severity issue = py ''critical'' then total_penalty + 20 * confidence issue
                 else if severity issue = py ''warning'' then total_penalty + 10 * confidence issue
                 else total_penalty + 5 * confidence issue)
                (issues e) 0;
            score = max 0 (100 - total_penalty)
        in round1 score)"

subsection \<open>Analysis of a file\<close>

text \<open>
  The file system maps a path to what \<open>open(path).read()\<close> yields: the text, or the exception
  it raises (a directory, a file that is not UTF-8, ...). A path outside the domain does not
  exist.
\<close>

datatype file_entry = Text pystr | Unreadable pystr

type_synonym filesystem = "pystr \<Rightarrow> file_entry option"

definition exists_path :: "filesystem \<Rightarrow> pystr \<Rightarrow> bool" where
  "exists_path fs path = (fs path \<noteq> None)"

text \<open>The values of the result dictionaries; a dictionary is the list of its items.\<close>

datatype pyval =
  PyStr pystr
| PyInt int
| PyFloat real
| PyDict "(pystr \<times> pyval) list"
| PyIssues "CodeIssue list"
| PyFunctions "FunctionMetrics list"
| PyClasses "ClassMetrics list"

type_synonym pydict = "(pystr \<times> pyval) list"

text \<open>
  \<open>analyze_file\<close>. A path that does not exist is answered before anything else. The
  handler for \<open>SyntaxError\<close> is reached from \<open>ast.parse\<close>. The handler for every other
  exception is reached from \<open>open\<close>, \<open>read\<close> and \<open>ast.parse\<close>, before the lists of the
  engine are reset, and from the four analyzers, after the reset: an analyzer that raises
  ends the analysis, the analyzers after it do not run, the engine keeps what has been
  appended so far, and the dictionary returned holds the text of the exception and the path.
  The result dictionary of a completed analysis holds lists built anew from the lists of the
  engine.
\<close>

definition str_lineno :: "nat option \<Rightarrow> pystr" where
  "str_lineno line = (case line of None \<Rightarrow> py ''None'' | Some n \<Rightarrow> str_nat n)"

definition analyze_file ::
  "runtime \<Rightarrow> filesystem \<Rightarrow> pystr \<Rightarrow> CodeIntelligenceEngine \<Rightarrow> pydict \<times> CodeIntelligenceEngine"
  where
  "analyze_file rt fs fp e =
     (let except_Exception =
            (\<lambda>exc. [(py ''error'', PyStr (err_failed @ exc)), (py ''file_path'', PyStr fp)])
      in case fs fp of
        None \<Rightarrow> ([(py ''error'', PyStr (err_not_found @ fp))], e)
      | Some (Unreadable exc) \<Rightarrow> (except_Exception exc, e)
      | Some (Text source_code) \<Rightarrow>
          (case ast_parse rt source_code of
             Syntax_error msg line \<Rightarrow>
               ([(py ''error'',
                   PyStr (err_syntax_pre @ msg @ err_syntax_mid @ str_lineno line
                          @ err_syntax_post)),
                 (py ''file_path'', PyStr fp)], e)
           | Other_exception exc \<Rightarrow> (except_Exception exc, e)
           | Parsed tree \<Rightarrow>
               (let lines = split_lines source_code;
                    e0 = e\<lparr>issues := [], function_metrics := [], class_metrics := []\<rparr>
                in case analyze_business_logic rt tree lines fp e0 of
                     (Some exc, e1) \<Rightarrow> (except_Exception exc, e1)
                   | (None, e1) \<Rightarrow>
                  (case analyze_performance_patterns rt tree lines fp e1 of
                     (Some exc, e2) \<Rightarrow> (except_Exception exc, e2)
                   | (None, e2) \<Rightarrow>
                  (case analyze_security_risks rt tree lines fp e2 of
                     (Some exc, e3) \<Rightarrow> (except_Exception exc, e3)
                   | (None, e3) \<Rightarrow>
                  (case analyze_architecture_decisions rt tree lines fp e3 of
                     (Some exc, e4) \<Rightarrow> (except_Exception exc, e4)
                   | (None, e4) \<Rightarrow>
                       ([(py ''file_path'', PyStr fp),
                         (py ''analysis_summary'', PyDict
                            [(py ''total_issues'', PyInt (int (length (issues e4)))),
                             (py ''critical_issues'', PyInt (int (length
                                (filter (\<lambda>i. severity i = py ''critical'') (issues e4))))),
                             (py ''warnings'', PyInt (int (length
                                (filter (\<lambda>i. severity i = py ''warning'') (issues e4))))),
                             (py ''suggestions'', PyInt (int (length
                                (filter (\<lambda>i. severity i = py ''suggestion'') (issues e4)))))]),
                         (py ''issues'', PyIssues (issues e4)),
                         (py ''function_metrics'', PyFunctions (function_metrics e4)),
                         (py ''class_metrics'', PyClasses (class_metrics e4)),
                         (py ''overall_quality_score'', PyFloat (calculate_quality_score e4))],
                        e4)))))))"

text \<open>\<open>os.path.isabs\<close> and \<open>os.path.join\<close> of two components, on POSIX.\<close>

definition isabs :: "pystr \<Rightarrow> bool" where
  "isabs path = startswith path (py ''/'')"

definition path_join :: "pystr \<Rightarrow> pystr \<Rightarrow> pystr" where
  "path_join a b =
     (if startswith b (py ''/'') then b
      else if a = [] \<or> endswith a (py ''/'') then a @ b
      else a @ py ''/'' @ b)"

definition project_path :: pystr where
  "project_path = py ''/Users/yuanquan/code_project/GalaxyAI/MCP-Fresh''"

text \<open>The tool \<open>analyze_code_intelligence\<close>, on the global engine \<open>analyzer\<close>.\<close>

definition analyze_code_intelligence ::
  "runtime \<Rightarrow> filesystem \<Rightarrow> pystr \<Rightarrow> CodeIntelligenceEngine \<Rightarrow> pydict \<times> CodeIntelligenceEngine"
  where
  "analyze_code_intelligence rt fs fp analyzer =
     (let fp' =
        (if \<not> isabs fp then
           (let full_path = path_join project_path fp in
            if exists_path fs full_path then full_path else fp)
         else fp)
      in analyze_file rt fs fp' analyzer)"

section \<open>Project context: technical debt\<close>

record DebtFactors =
  code_duplication :: nat
  long_functions :: nat
  complex_classes :: nat
  missing_tests :: nat
  poor_documentation :: nat

record TechDebt =
  debt_factors :: DebtFactors
  total_score :: nat
  debt_level :: pystr
  recommended_actions :: "pystr list"

definition get_debt_reduction_actions :: "DebtFactors \<Rightarrow> pystr list" where
  "get_debt_reduction_actions d =
     (if long_functions d > 3 then [action_long_functions] else [])
     @ (if missing_tests d > 5 then [action_missing_tests] else [])
     @ (if poor_documentation d > 3 then [action_poor_documentation] else [])"

text \<open>
  \<open>os.walk(project_root)\<close> is given by its result, the list of \<open>(root, dirs, files)\<close>
  triples. The three quotation marks of the literal searched for by \<open>content.count\<close> are the
  code point 34 three times.
\<close>

definition python_files :: "(pystr \<times> pystr list \<times> pystr list) list \<Rightarrow> pystr list" where
  "python_files os_walk =
     concat (map (\<lambda>(root, dirs, files).
        map (path_join root) (filter (\<lambda>file. endswith file (py ''.py'')) files)) os_walk)"

text \<open>The body of the loop over \<open>python_files\<close>; a file that cannot be read is skipped.\<close>

definition assess_file :: "runtime \<Rightarrow> filesystem \<Rightarrow> pystr \<Rightarrow> DebtFactors \<Rightarrow> DebtFactors" where
  "assess_file rt fs fp d =
     (case fs fp of
        Some (Text content) \<Rightarrow>
          (let lines = split_lines content in
           d\<lparr>long_functions := long_functions d
                + length (filter (\<lambda>l. contains l (py ''def '') \<and> length content > 2000) lines),
             missing_tests := missing_tests d
                + (if \<not> contains (lower rt fp) (py ''test'') then 1 else 0),
             poor_documentation := poor_documentation d
                + (if count_str content [34, 34, 34] < 2 then 1 else 0)\<rparr>)
      | _ \<Rightarrow> d)"

definition calculate_tech_debt ::
  "runtime \<Rightarrow> (pystr \<times> pystr list \<times> pystr list) list \<Rightarrow> filesystem \<Rightarrow> TechDebt" where
  "calculate_tech_debt rt os_walk fs =
     (let d = fold (assess_file rt fs) (python_files os_walk)
                \<lparr>code_duplication = 0, long_functions = 0, complex_classes = 0,
                 missing_tests = 0, poor_documentation = 0\<rparr>;
          total_debt_score = code_duplication d + long_functions d + complex_classes d
                             + missing_tests d + poor_documentation d
      in \<lparr>debt_factors = d, total_score = total_debt_score,
          debt_level = (if total_debt_score < 10 then py ''Low''
                        else if total_debt_score < 25 then py ''Medium'' else py ''High''),
          recommended_actions = get_debt_reduction_actions d\<rparr>)"

section \<open>Developer accelerator: refactoring suggestions\<close>

text \<open>
  A suggestion is a dictionary with the keys \<open>type\<close>, \<open>message\<close> and \<open>suggestion\<close>. Line
  numbers are subtracted as integers.
\<close>

definition suggest_node :: "ast \<Rightarrow> (pystr \<times> pystr) list list" where
  "suggest_node node =
     (if cls node = ''FunctionDef'' then
        (if int (end_lineno node) - int (lineno node) > 50
         then [[(py ''type'', py ''function_length''),
                (py ''message'', sug_length_pre @ ident node @ sug_length_post),
                (py ''suggestion'', sug_length_fix)]]
         else [])
        @ (if length (args_args node) > 5
           then [[(py ''type'', py ''parameter_count''),
                  (py ''message'', sug_length_pre @ ident node @ sug_params_post),
                  (py ''suggestion'', sug_params_fix)]]
           else [])
      else if cls node = ''ClassDef'' then
        (if length (filter (\<lambda>n. cls n = ''FunctionDef'') (field ''body'' node)) > 15
         then [[(py ''type'', py ''class_size''),
                (py ''message'', sug_class_pre @ ident node @ sug_class_post),
                (py ''suggestion'', sug_class_fix)]]
         else [])
      else [])"

definition suggest_refactoring :: "runtime \<Rightarrow> pystr \<Rightarrow> (pystr \<times> pystr) list list" where
  "suggest_refactoring rt code =
     (case ast_parse rt code of
        Parsed tree \<Rightarrow> fold (\<lambda>node suggestions. suggestions @ suggest_node node) (walk tree) []
      | _ \<Rightarrow> [])"

section \<open>Auxiliary notions and example inputs\<close>

text \<open>
  The contribution of one node to the cyclomatic complexity, and the weight of a severity in
  the quality score (every severity other than \<open>critical\<close> and \<open>warning\<close>, \<open>suggestion\<close>
  among them, weighs 5).
\<close>

definition complexity_weight :: "ast \<Rightarrow> nat" where
  "complexity_weight child =
     (if cls child \<in> set [''If'', ''While'', ''For'', ''AsyncFor'', ''With'', ''AsyncWith''] then 1
      else if cls child = ''Try'' then length (field ''handlers'' child)
      else if cls child \<in> set [''And'', ''Or''] then 1 else 0)"

definition severity_weight :: "pystr \<Rightarrow> real" where
  "severity_weight s = (if s = py ''critical'' then 20 else if s = py ''warning'' then 10 else 5)"

text \<open>
  The analyzers only ever append to the lists of the engine. \<open>appends f\<close> says so of a step
  \<open>f\<close>: what it adds does not depend on the engine it starts from.
\<close>

definition empty_engine :: CodeIntelligenceEngine where
  "empty_engine = \<lparr>issues = [], function_metrics = [], class_metrics = []\<rparr>"

definition engine_append ::
  "CodeIntelligenceEngine \<Rightarrow> CodeIntelligenceEngine \<Rightarrow> CodeIntelligenceEngine" where
  "engine_append e d =
     \<lparr>issues = issues e @ issues d,
      function_metrics = function_metrics e @ function_metrics d,
      class_metrics = class_metrics e @ class_metrics d\<rparr>"

definition appends :: "(CodeIntelligenceEngine \<Rightarrow> CodeIntelligenceEngine) \<Rightarrow> bool" where
  "appends f = (\<forall>e. f e = engine_append e (f empty_engine))"

text \<open>
  The issues that the bare-except rule and the hard-coded-secret rule produce are told from
  all other issues by severity, category and confidence.
\<close>

definition is_bare_except_issue :: "CodeIssue \<Rightarrow> bool" where
  "is_bare_except_issue i =
     (severity i = py ''warning'' \<and> category i = py ''logic'' \<and> confidence i = 0.9)"

definition is_hardcoded_secret_issue :: "CodeIssue \<Rightarrow> bool" where
  "is_hardcoded_secret_issue i =
     (severity i = py ''critical'' \<and> category i = py ''security'' \<and> confidence i = 0.8)"

text \<open>The function definitions (\<open>def\<close>) of a tree, in the order of a visit.\<close>

definition function_defs :: "ast \<Rightarrow> ast list" where
  "function_defs t = filter (\<lambda>n. cls n = ''FunctionDef'') (subtree t)"

text \<open>
  The bare handlers of a tree, in the order of a visit, each with the number of function
  definitions (\<open>def\<close>) that it lies inside; \<open>k\<close> is the number of those around the tree.
\<close>

fun enclosed_bare_excepts :: "nat \<Rightarrow> ast \<Rightarrow> (ast \<times> nat) list" where
  "enclosed_bare_excepts k (Node c s l el i v cs) =
     (let k' = (if c = ''FunctionDef'' then Suc k else k) in
      (if c = ''ExceptHandler'' \<and> field ''type'' (Node c s l el i v cs) = []
       then [(Node c s l el i v cs, k')] else [])
      @ concat (map (enclosed_bare_excepts k') cs))"

text \<open>
  A visit that is not cut short: the work of the visitor at every node of the tree, with no
  bound on the depth. \<open>work\<close> is the engine that a step leaves. \<open>height\<close> is the number of
  levels of a tree.
\<close>

definition work :: "(ast \<Rightarrow> 'e \<Rightarrow> 'e outcome) \<Rightarrow> ast \<Rightarrow> 'e \<Rightarrow> 'e" where
  "work visit_node n e = snd (visit_node n e)"

fun complete_visit :: "(ast \<Rightarrow> 'e \<Rightarrow> 'e) \<Rightarrow> ast \<Rightarrow> 'e \<Rightarrow> 'e" where
  "complete_visit visit_node (Node c s l el i k cs) =
     (\<lambda>e. fold (complete_visit visit_node) cs (visit_node (Node c s l el i k cs) e))"

fun height :: "ast \<Rightarrow> nat" where
  "height (Node c s l el i k cs) = Suc (fold max (map height cs) 0)"

text \<open>
  What the four analyzers of \<open>analyze_file\<close>, run in its order on an engine just reset,
  leave when none of them raises; the dictionary that \<open>analyze_file\<close> then returns; and the
  dictionary that its handler for exceptions returns.
\<close>

definition run_analyzers :: "runtime \<Rightarrow> ast \<Rightarrow> pystr list \<Rightarrow> pystr \<Rightarrow> CodeIntelligenceEngine" where
  "run_analyzers rt tree lines fp =
     complete_visit (work (ArchitectureVisitor rt lines fp)) tree
       (complete_visit (work (SecurityVisitor rt lines fp)) tree
         (complete_visit (work (PerformanceVisitor lines fp)) tree
           (complete_visit (work (BusinessLogicVisitor rt lines fp)) tree empty_engine)))"

definition completed_result :: "pystr \<Rightarrow> CodeIntelligenceEngine \<Rightarrow> pydict" where
  "completed_result fp e =
     [(py ''file_path'', PyStr fp),
      (py ''analysis_summary'', PyDict
         [(py ''total_issues'', PyInt (int (length (issues e)))),
          (py ''critical_issues'', PyInt (int (length
             (filter (\<lambda>i. severity i = py ''critical'') (issues e))))),
          (py ''warnings'', PyInt (int (length
             (filter (\<lambda>i. severity i = py ''warning'') (issues e))))),
          (py ''suggestions'', PyInt (int (length
             (filter (\<lambda>i. severity i = py ''suggestion'') (issues e)))))]),
      (py ''issues'', PyIssues (issues e)),
      (py ''function_metrics'', PyFunctions (function_metrics e)),
      (py ''class_metrics'', PyClasses (class_metrics e)),
      (py ''overall_quality_score'', PyFloat (calculate_quality_score e))]"

definition failed_result :: "pystr \<Rightarrow> pystr \<Rightarrow> pydict" where
  "failed_result fp exc = [(py ''error'', PyStr (err_failed @ exc)), (py ''file_path'', PyStr fp)]"

text \<open>The entries of the dictionary that \<open>analyze_file\<close> returns.\<close>

definition result_issues :: "pydict \<Rightarrow> CodeIssue list" where
  "result_issues d = (case map_of d (py ''issues'') of Some (PyIssues xs) \<Rightarrow> xs | _ \<Rightarrow> [])"

definition result_function_metrics :: "pydict \<Rightarrow> FunctionMetrics list" where
  "result_function_metrics d =
     (case map_of d (py ''function_metrics'') of Some (PyFunctions xs) \<Rightarrow> xs | _ \<Rightarrow> [])"

text \<open>The score entry of a result, and the range that the record declares for a confidence.\<close>

definition confidence_in_range :: "CodeIssue \<Rightarrow> bool" where
  "confidence_in_range i = (0 \<le> confidence i \<and> confidence i \<le> 1)"

definition result_score :: "pydict \<Rightarrow> real option" where
  "result_score d =
     (case map_of d (py ''overall_quality_score'') of Some (PyFloat s) \<Rightarrow> Some s | _ \<Rightarrow> None)"

text \<open>
  Nodes of example trees: a node with a position, a node with a position and an identifier,
  and a node without position (an operator, \<open>arguments\<close>, a context), whose line is 0.
\<close>

definition stmt :: "string \<Rightarrow> string \<Rightarrow> nat \<Rightarrow> nat \<Rightarrow> ast list \<Rightarrow> ast" where
  "stmt c sl l el cs = Node c sl l el [] Const_other cs"

definition named :: "string \<Rightarrow> string \<Rightarrow> nat \<Rightarrow> nat \<Rightarrow> pystr \<Rightarrow> ast list \<Rightarrow> ast" where
  "named c sl l el nm cs = Node c sl l el nm Const_other cs"

definition leaf :: "string \<Rightarrow> string \<Rightarrow> ast" where
  "leaf c sl = Node c sl 0 0 [] Const_other []"

text \<open>
  \<^verbatim>\<open>def f():\<close>\<^verbatim>\<open>    pass\<close>
\<close>

definition plain_function :: ast where
  "plain_function =
     named ''FunctionDef'' ''body'' 1 2 (py ''f'')
       [leaf ''arguments'' ''args'', stmt ''Pass'' ''body'' 2 2 []]"

text \<open>
  \<^verbatim>\<open>def f():\<close>\<^verbatim>\<open>    with x:\<close>\<^verbatim>\<open>        pass\<close>
\<close>

definition with_function :: ast where
  "with_function =
     named ''FunctionDef'' ''body'' 1 3 (py ''f'')
       [leaf ''arguments'' ''args'',
        stmt ''With'' ''body'' 2 3
          [stmt ''withitem'' ''items'' 0 0
             [named ''Name'' ''context_expr'' 2 2 (py ''x'') [leaf ''Load'' ''ctx'']],
           stmt ''Pass'' ''body'' 3 3 []]]"

text \<open>An engine that holds one \<open>eval\<close> issue and one parameter-count issue.\<close>

definition two_issues :: CodeIntelligenceEngine where
  "two_issues =
     \<lparr>issues =
        [\<lparr>severity = py ''critical'', category = py ''security'', message = msg_eval,
          file_path = py ''a.py'', line_number = 1, code_snippet = py ''eval(x)'',
          fix_suggestion = fix_eval, confidence = 0.95\<rparr>,
         \<lparr>severity = py ''suggestion'', category = py ''architecture'',
          message = msg_params_pre @ str_nat 6 @ msg_params_post,
          file_path = py ''a.py'', line_number = 3, code_snippet = py ''def g(a, b, c, d, e, f):'',
          fix_suggestion = fix_params, confidence = 0.8\<rparr>],
      function_metrics = [], class_metrics = []\<rparr>"

text \<open>
  An example runtime. Its parser yields the given tree for the given source; the text of a
  list of nodes is that of CPython 3.11, every node at the address \<open>0x7f6ac70c39a0\<close>; the
  stack admits visits 450 levels deep. Its \<open>ast.dump\<close> and its lowering of strings that
  are not ASCII are not used by the examples.
\<close>

definition hex_digits :: "pystr \<Rightarrow> bool" where
  "hex_digits s = list_all (\<lambda>c. c \<in> set (py ''0123456789abcdef'')) s"

definition example_runtime :: "pystr \<Rightarrow> ast \<Rightarrow> runtime" where
  "example_runtime source tree =
     \<lparr>ast_parse = (\<lambda>s. if s = source then Parsed tree
                        else Syntax_error (py ''invalid syntax'') (Some 1)),
      str_targets = list_str (\<lambda>n. py ''7f6ac70c39a0''),
      ast_dump = (\<lambda>n. Inr []),
      unicode_lower = ascii_lower,
      stack_depth = 450,
      recursion_error = py ''maximum recursion depth exceeded''\<rparr>"

text \<open>A file system with one readable file.\<close>

definition single_file :: "pystr \<Rightarrow> pystr \<Rightarrow> filesystem" where
  "single_file path source = (\<lambda>p. if p = path then Some (Text source) else None)"

text \<open>
  A bare handler outside every function; one inside a function nested in another function;
  one inside a function followed by one at module level; and one inside a function of a file
  that also has a function nested in another one. Each source is followed by its tree.
\<close>

definition module_try_source :: pystr where
  "module_try_source = py ''try:\<newline>    pass\<newline>except:\<newline>    pass\<newline>''"

definition module_try :: ast where
  "module_try =
     stmt ''Module'' [] 0 0
       [stmt ''Try'' ''body'' 1 4
          [stmt ''Pass'' ''body'' 2 2 [],
           stmt ''ExceptHandler'' ''handlers'' 3 4 [stmt ''Pass'' ''body'' 4 4 []]]]"

definition nested_try_source :: pystr where
  "nested_try_source =
     py ''def outer():\<newline>    def inner():\<newline>        try:\<newline>            pass\<newline>        except:\<newline>            pass\<newline>''"

definition nested_try :: ast where
  "nested_try =
     stmt ''Module'' [] 0 0
       [named ''FunctionDef'' ''body'' 1 6 (py ''outer'')
          [leaf ''arguments'' ''args'',
           named ''FunctionDef'' ''body'' 2 6 (py ''inner'')
             [leaf ''arguments'' ''args'',
              stmt ''Try'' ''body'' 3 6
                [stmt ''Pass'' ''body'' 4 4 [],
                 stmt ''ExceptHandler'' ''handlers'' 5 6 [stmt ''Pass'' ''body'' 6 6 []]]]]]"

definition function_try_source :: pystr where
  "function_try_source =
     py ''def f():\<newline>    try:\<newline>        pass\<newline>    except:\<newline>        pass\<newline>try:\<newline>    pass\<newline>except:\<newline>    pass\<newline>''"

definition function_try :: ast where
  "function_try =
     stmt ''Module'' [] 0 0
       [named ''FunctionDef'' ''body'' 1 5 (py ''f'')
          [leaf ''arguments'' ''args'',
           stmt ''Try'' ''body'' 2 5
             [stmt ''Pass'' ''body'' 3 3 [],
              stmt ''ExceptHandler'' ''handlers'' 4 5 [stmt ''Pass'' ''body'' 5 5 []]]],
        stmt ''Try'' ''body'' 6 9
          [stmt ''Pass'' ''body'' 7 7 [],
           stmt ''ExceptHandler'' ''handlers'' 8 9 [stmt ''Pass'' ''body'' 9 9 []]]]"

definition mixed_try_source :: pystr where
  "mixed_try_source =
     py ''def outer():\<newline>    def inner():\<newline>        pass\<newline>def f():\<newline>    try:\<newline>        pass\<newline>    except:\<newline>        pass\<newline>''"

definition mixed_try :: ast where
  "mixed_try =
     stmt ''Module'' [] 0 0
       [named ''FunctionDef'' ''body'' 1 3 (py ''outer'')
          [leaf ''arguments'' ''args'',
           named ''FunctionDef'' ''body'' 2 3 (py ''inner'')
             [leaf ''arguments'' ''args'', stmt ''Pass'' ''body'' 3 3 []]],
        named ''FunctionDef'' ''body'' 4 8 (py ''f'')
          [leaf ''arguments'' ''args'',
           stmt ''Try'' ''body'' 5 8
             [stmt ''Pass'' ''body'' 6 6 [],
              stmt ''ExceptHandler'' ''handlers'' 7 8 [stmt ''Pass'' ''body'' 8 8 []]]]]"

text \<open>
  The assignment of a string constant of 14 characters to \<open>password\<close>, alone in a file.
\<close>

definition password_source :: pystr where
  "password_source = py ''password = '' @ [39] @ py ''supersecret123'' @ [39, 10]"

definition password_assign :: ast where
  "password_assign =
     stmt ''Assign'' ''body'' 1 1
       [named ''Name'' ''targets'' 1 1 (py ''password'') [leaf ''Store'' ''ctx''],
        Node ''Constant'' ''value'' 1 1 [] (Const_str (py ''supersecret123'')) []]"

definition password_module :: ast where
  "password_module = stmt ''Module'' [] 0 0 [password_assign]"

text \<open>An async function with six parameters, and a plain function.\<close>

definition async_source :: pystr where
  "async_source =
     py ''async def fetch(a, b, c, d, e, f):\<newline>    return 1\<newline>def get_value():\<newline>    return 2\<newline>''"

definition async_module :: ast where
  "async_module =
     stmt ''Module'' [] 0 0
       [named ''AsyncFunctionDef'' ''body'' 1 2 (py ''fetch'')
          [stmt ''arguments'' ''args'' 0 0
             [named ''arg'' ''args'' 1 1 (py ''a'') [], named ''arg'' ''args'' 1 1 (py ''b'') [],
              named ''arg'' ''args'' 1 1 (py ''c'') [], named ''arg'' ''args'' 1 1 (py ''d'') [],
              named ''arg'' ''args'' 1 1 (py ''e'') [], named ''arg'' ''args'' 1 1 (py ''f'') []],
           stmt ''Return'' ''body'' 2 2 [Node ''Constant'' ''value'' 2 2 [] Const_other []]],
        named ''FunctionDef'' ''body'' 3 4 (py ''get_value'')
          [leaf ''arguments'' ''args'',
           stmt ''Return'' ''body'' 4 4 [Node ''Constant'' ''value'' 4 4 [] Const_other []]]]"

text \<open>
  A function without parameters on lines 1 to 51 (a \<open>def\<close> line, a statement, 48 empty
  lines, a statement), and the same with one more empty line, on lines 1 to 52.
\<close>

definition lines_1_to_51_source :: pystr where
  "lines_1_to_51_source =
     py ''def f():\<newline>    pass\<newline>'' @ replicate 48 10 @ py ''    pass\<newline>''"

definition lines_1_to_51 :: ast where
  "lines_1_to_51 =
     stmt ''Module'' [] 0 0
       [named ''FunctionDef'' ''body'' 1 51 (py ''f'')
          [leaf ''arguments'' ''args'',
           stmt ''Pass'' ''body'' 2 2 [],
           stmt ''Pass'' ''body'' 51 51 []]]"

definition lines_1_to_52_source :: pystr where
  "lines_1_to_52_source =
     py ''def f():\<newline>    pass\<newline>'' @ replicate 49 10 @ py ''    pass\<newline>''"

definition lines_1_to_52 :: ast where
  "lines_1_to_52 =
     stmt ''Module'' [] 0 0
       [named ''FunctionDef'' ''body'' 1 52 (py ''f'')
          [leaf ''arguments'' ''args'',
           stmt ''Pass'' ''body'' 2 2 [],
           stmt ''Pass'' ''body'' 52 52 []]]"

text \<open>A \<open>for\<close> loop in the body of a \<open>while\<close> loop, and the other way round.\<close>

definition while_over_for_source :: pystr where
  "while_over_for_source = py ''while c:\<newline>    for x in xs:\<newline>        pass\<newline>''"

definition while_over_for :: ast where
  "while_over_for =
     stmt ''Module'' [] 0 0
       [stmt ''While'' ''body'' 1 3
          [named ''Name'' ''test'' 1 1 (py ''c'') [leaf ''Load'' ''ctx''],
           stmt ''For'' ''body'' 2 3
             [named ''Name'' ''target'' 2 2 (py ''x'') [leaf ''Store'' ''ctx''],
              named ''Name'' ''iter'' 2 2 (py ''xs'') [leaf ''Load'' ''ctx''],
              stmt ''Pass'' ''body'' 3 3 []]]]"

definition for_over_while_source :: pystr where
  "for_over_while_source = py ''for x in xs:\<newline>    while c:\<newline>        pass\<newline>''"

definition for_over_while :: ast where
  "for_over_while =
     stmt ''Module'' [] 0 0
       [stmt ''For'' ''body'' 1 3
          [named ''Name'' ''target'' 1 1 (py ''x'') [leaf ''Store'' ''ctx''],
           named ''Name'' ''iter'' 1 1 (py ''xs'') [leaf ''Load'' ''ctx''],
           stmt ''While'' ''body'' 2 3
             [named ''Name'' ''test'' 2 2 (py ''c'') [leaf ''Load'' ''ctx''],
              stmt ''Pass'' ''body'' 3 3 []]]]"

text \<open>
  What one file adds to the factor \<open>long_functions\<close>: the number of its lines that contain
  \<open>def \<close> when the file has more than 2000 characters and can be read, and nothing
  otherwise.
\<close>

definition file_long_functions :: "filesystem \<Rightarrow> pystr \<Rightarrow> nat" where
  "file_long_functions fs fp =
     (case fs fp of
        Some (Text content) \<Rightarrow>
          if 2000 < length content
          then length (filter (\<lambda>l. contains l (py ''def '')) (split_lines content)) else 0
      | _ \<Rightarrow> 0)"

text \<open>
  A project with \<open>a.py\<close>, two function definitions and a comment line of 2000 characters;
  \<open>b.py\<close>, one short function; and a text file.
\<close>

definition two_defs_source :: pystr where
  "two_defs_source =
     py ''def f():\<newline>    pass\<newline>def g():\<newline>    pass\<newline>#'' @ replicate 2000 35"

definition short_def_source :: pystr where
  "short_def_source = py ''def h():\<newline>    pass\<newline>''"

definition project_walk :: "(pystr \<times> pystr list \<times> pystr list) list" where
  "project_walk = [(py ''/p'', [], [py ''a.py'', py ''b.py'', py ''notes.txt''])]"

definition project_files :: filesystem where
  "project_files =
     (\<lambda>p. if p = py ''/p/a.py'' then Some (Text two_defs_source)
          else if p = py ''/p/b.py'' then Some (Text short_def_source)
          else if p = py ''/p/notes.txt'' then Some (Text two_defs_source)
          else None)"

section \<open>Properties\<close>

subsection \<open>Strings and trees\<close>

lemmas node_defs = stmt_def named_def leaf_def

lemma py_eq_iff [simp]: "py a = py b \<longleftrightarrow> a = b"
  unfolding py_def by (simp add: inj_map_eq_map inj_on_def)

lemma subtree_unfold: "subtree n = n # concat (map subtree (children n))"
  by (cases n) simp

text \<open>\<open>ast.walk\<close> yields exactly the nodes of the subtree, each once, in another order.\<close>

lemma mset_walk_queue: "mset (walk_queue q) = mset (concat (map subtree q))"
proof (induction q rule: walk_queue.induct)
  case 1
  show ?case by simp
next
  case (2 n todo)
  have "mset (subtree n) = {#n#} + mset (concat (map subtree (children n)))"
    using subtree_unfold[of n] by simp
  with 2 show ?case by simp
qed

lemma mset_walk: "mset (walk n) = mset (subtree n)"
  unfolding walk_def mset_walk_queue by simp

lemma length_filter_mset_cong:
  "mset xs = mset ys \<Longrightarrow> length (filter P xs) = length (filter P ys)"
  by (metis mset_filter size_mset)

lemma sum_list_filter_mset_cong:
  fixes f :: "'a \<Rightarrow> nat"
  shows "mset xs = mset ys \<Longrightarrow> sum_list (map f (filter P xs)) = sum_list (map f (filter P ys))"
  by (metis mset_filter mset_map sum_mset_sum_list)

subsection \<open>The engine only grows\<close>

lemma engine_append_empty [simp]:
  "engine_append e empty_engine = e" "engine_append empty_engine e = e"
  by (simp_all add: engine_append_def empty_engine_def)

lemma engine_append_assoc:
  "engine_append (engine_append a b) c = engine_append a (engine_append b c)"
  by (simp add: engine_append_def)

lemma engine_append_sel [simp]:
  "issues (engine_append e d) = issues e @ issues d"
  "function_metrics (engine_append e d) = function_metrics e @ function_metrics d"
  "class_metrics (engine_append e d) = class_metrics e @ class_metrics d"
  by (simp_all add: engine_append_def)

lemma empty_engine_sel [simp]:
  "issues empty_engine = []" "function_metrics empty_engine = []" "class_metrics empty_engine = []"
  by (simp_all add: empty_engine_def)

lemma appendsD: "appends f \<Longrightarrow> f e = engine_append e (f empty_engine)"
  unfolding appends_def by blast

lemma appends_id: "appends (\<lambda>e. e)"
  by (simp add: appends_def)

lemma appends_append_issue: "appends (append_issue i)"
  by (simp add: appends_def append_issue_def engine_append_def empty_engine_def)

lemma appends_add_function: "appends (\<lambda>e. e\<lparr>function_metrics := function_metrics e @ [m]\<rparr>)"
  by (simp add: appends_def engine_append_def empty_engine_def)

lemma appends_add_class: "appends (\<lambda>e. e\<lparr>class_metrics := class_metrics e @ [m]\<rparr>)"
  by (simp add: appends_def engine_append_def empty_engine_def)

lemma appends_comp:
  assumes "appends f" "appends g"
  shows "appends (\<lambda>e. g (f e))"
  unfolding appends_def
proof
  fix e
  have 1: "f e = engine_append e (f empty_engine)" by (rule appendsD[OF assms(1)])
  have 2: "g (f e) = engine_append (f e) (g empty_engine)" by (rule appendsD[OF assms(2)])
  have 3: "g (f empty_engine) = engine_append (f empty_engine) (g empty_engine)"
    by (rule appendsD[OF assms(2)])
  have "g (f e) = engine_append (engine_append e (f empty_engine)) (g empty_engine)"
    using 1 2 by (simp only:)
  also have "\<dots> = engine_append e (engine_append (f empty_engine) (g empty_engine))"
    by (rule engine_append_assoc)
  finally show "g (f e) = engine_append e (g (f empty_engine))"
    using 3 by (simp only:)
qed

lemma appends_if: "appends f \<Longrightarrow> appends g \<Longrightarrow> appends (\<lambda>e. if b then f e else g e)"
  by (cases b) (simp_all only: if_True if_False)

lemma appends_when: "appends (\<lambda>e. if b then append_issue i e else e)"
  by (rule appends_if[OF appends_append_issue appends_id])

lemma appends_fold:
  assumes "\<And>x. x \<in> set xs \<Longrightarrow> appends (f x)"
  shows "appends (fold f xs)"
  using assms
proof (induction xs)
  case Nil
  show ?case by (simp add: appends_def)
next
  case (Cons x xs)
  have "appends (f x)" using Cons.prems by simp
  moreover have "appends (fold f xs)" by (rule Cons.IH) (simp add: Cons.prems)
  ultimately have "appends (\<lambda>e. fold f xs (f x e))" by (rule appends_comp)
  moreover have "fold f (x # xs) = (\<lambda>e. fold f xs (f x e))" by (simp add: fun_eq_iff)
  ultimately show ?case by (simp only:)
qed

lemma issues_fold_engine_append:
  "issues (fold (\<lambda>x a. engine_append a (g x)) xs e) = issues e @ concat (map (\<lambda>x. issues (g x)) xs)"
  by (induction xs arbitrary: e) simp_all

lemma function_metrics_fold_engine_append:
  "function_metrics (fold (\<lambda>x a. engine_append a (g x)) xs e) =
     function_metrics e @ concat (map (\<lambda>x. function_metrics (g x)) xs)"
  by (induction xs arbitrary: e) simp_all

lemma class_metrics_fold_engine_append:
  "class_metrics (fold (\<lambda>x a. engine_append a (g x)) xs e) =
     class_metrics e @ concat (map (\<lambda>x. class_metrics (g x)) xs)"
  by (induction xs arbitrary: e) simp_all

lemma fold_concat_map:
  "fold h (concat (map g xs)) a = fold (\<lambda>x. fold h (g x)) xs a"
  by (induction xs arbitrary: a) simp_all

text \<open>
  A visit that is not cut short does the visitor's work at every node of the subtree, in
  preorder.
\<close>

lemma complete_visit_preorder:
  assumes "\<And>n. appends (visit_node n)"
  shows "complete_visit visit_node t e =
           fold (\<lambda>n a. engine_append a (visit_node n empty_engine)) (subtree t) e"
proof (induction t arbitrary: e)
  case (Node c s l el i k cs)
  let ?n = "Node c s l el i k cs"
  let ?h = "\<lambda>n a. engine_append a (visit_node n empty_engine)"
  have kids: "fold (complete_visit visit_node) cs a = fold ?h (concat (map subtree cs)) a" for a
  proof -
    have "fold (complete_visit visit_node) cs a = fold (\<lambda>c. fold ?h (subtree c)) cs a"
      by (rule fold_cong) (auto simp: Node.IH fun_eq_iff)
    also have "\<dots> = fold ?h (concat (map subtree cs)) a"
      by (simp only: fold_concat_map)
    finally show ?thesis .
  qed
  have "visit_node ?n e = engine_append e (visit_node ?n empty_engine)"
    by (rule appendsD[OF assms])
  then show ?case by (simp add: kids)
qed

lemma issues_complete_visit:
  assumes "\<And>n. appends (visit_node n)"
  shows "issues (complete_visit visit_node t e) =
           issues e @ concat (map (\<lambda>n. issues (visit_node n empty_engine)) (subtree t))"
  by (simp only: complete_visit_preorder[OF assms] issues_fold_engine_append)

lemma function_metrics_complete_visit:
  assumes "\<And>n. appends (visit_node n)"
  shows "function_metrics (complete_visit visit_node t e) =
           function_metrics e
           @ concat (map (\<lambda>n. function_metrics (visit_node n empty_engine)) (subtree t))"
  by (simp only: complete_visit_preorder[OF assms] function_metrics_fold_engine_append)

lemma class_metrics_complete_visit:
  assumes "\<And>n. appends (visit_node n)"
  shows "class_metrics (complete_visit visit_node t e) =
           class_metrics e
           @ concat (map (\<lambda>n. class_metrics (visit_node n empty_engine)) (subtree t))"
  by (simp only: complete_visit_preorder[OF assms] class_metrics_fold_engine_append)

subsection \<open>Visits and the depth of the stack\<close>

lemma visit_each_completes:
  assumes "\<And>c a. c \<in> set cs \<Longrightarrow> visit c a = (None, g c a)"
  shows "visit_each visit cs e = (None, fold g cs e)"
  using assms by (induction cs arbitrary: e) simp_all

lemma visit_each_completed:
  assumes "visit_each visit cs e = (None, e')"
    and "\<And>c a a'. c \<in> set cs \<Longrightarrow> visit c a = (None, a') \<Longrightarrow> a' = g c a"
  shows "e' = fold g cs e"
  using assms
proof (induction cs arbitrary: e)
  case Nil
  then show ?case by simp
next
  case (Cons c cs)
  obtain x a where ca: "visit c e = (x, a)" by (cases "visit c e")
  with Cons.prems(1) have x: "x = None" by (cases x) simp_all
  with ca Cons.prems(1) have rest: "visit_each visit cs a = (None, e')" by simp
  have a: "a = g c e" using Cons.prems(2)[of c e a] ca x by simp
  have "e' = fold g cs a"
    by (rule Cons.IH[OF rest]) (simp add: Cons.prems(2))
  with a show ?case by simp
qed

lemma visit_each_raises:
  assumes "\<And>c a. c \<in> set cs \<Longrightarrow> fst (visit c a) = (if P c then None else Some exc)"
  shows "fst (visit_each visit cs e) = (if list_all P cs then None else Some exc)"
  using assms
proof (induction cs arbitrary: e)
  case Nil
  then show ?case by simp
next
  case (Cons c cs)
  obtain x a where ca: "visit c e = (x, a)" by (cases "visit c e")
  have x: "x = (if P c then None else Some exc)" using Cons.prems[of c e] ca by simp
  have IH: "fst (visit_each visit cs a) = (if list_all P cs then None else Some exc)"
    by (rule Cons.IH) (simp add: Cons.prems)
  show ?case using ca x IH by (cases "P c") simp_all
qed

lemma le_fold_max: "(x::nat) \<in> set xs \<Longrightarrow> x \<le> fold max xs a"
  and le_fold_max_init: "(a::nat) \<le> fold max xs a"
proof -
  have init: "b \<le> fold max xs b" for b :: nat and xs
  proof (induction xs arbitrary: b)
    case Nil show ?case by simp
  next
    case (Cons y ys)
    have "max y b \<le> fold max ys (max y b)" by (rule Cons.IH)
    then show ?case by simp
  qed
  show "a \<le> fold max xs a" by (rule init)
  show "x \<in> set xs \<Longrightarrow> x \<le> fold max xs a"
  proof (induction xs arbitrary: a)
    case Nil then show ?case by simp
  next
    case (Cons y ys)
    show ?case
    proof (cases "x = y")
      case True
      have "max y a \<le> fold max ys (max y a)" by (rule init)
      with True show ?thesis by simp
    next
      case False
      with Cons.prems have "x \<in> set ys" by simp
      then have "x \<le> fold max ys (max y a)" by (rule Cons.IH)
      then show ?thesis by simp
    qed
  qed
qed

lemma fold_max_le_iff: "fold max xs (a::nat) \<le> d \<longleftrightarrow> a \<le> d \<and> list_all (\<lambda>x. x \<le> d) xs"
  by (induction xs arbitrary: a) auto

lemma height_le_Suc:
  "height (Node c s l el i k cs) \<le> Suc d \<longleftrightarrow> list_all (\<lambda>c. height c \<le> d) cs"
  by (simp add: fold_max_le_iff list_all_iff)

text \<open>A visit that returns has done the work of the visitor at every node.\<close>

lemma NodeVisitor_visit_completed:
  assumes "NodeVisitor_visit rt visit_node depth t e = (None, e')"
  shows "e' = complete_visit (work visit_node) t e"
  using assms
proof (induction depth arbitrary: t e e')
  case 0
  then show ?case by simp
next
  case (Suc depth)
  obtain c s l el i k cs where t: "t = Node c s l el i k cs" by (cases t)
  obtain x a where st: "visit_node t e = (x, a)" by (cases "visit_node t e")
  with Suc.prems t have x: "x = None" by (cases x) simp_all
  with st Suc.prems t have
    rest: "visit_each (\<lambda>child. NodeVisitor_visit rt visit_node depth child) cs a = (None, e')"
    by simp
  have "e' = fold (complete_visit (work visit_node)) cs a"
    by (rule visit_each_completed[OF rest]) (rule Suc.IH)
  moreover have "a = work visit_node t e" using st by (simp add: work_def)
  ultimately show ?case using t by simp
qed

text \<open>
  A visitor whose own work does not raise completes its visit exactly on the trees that
  are not higher than the stack is deep, and raises \<open>RecursionError\<close> on the others.
\<close>

lemma NodeVisitor_visit_raises:
  assumes "\<And>n a. fst (visit_node n a) = None"
  shows "fst (NodeVisitor_visit rt visit_node depth t e) =
           (if height t \<le> depth then None else Some (recursion_error rt))"
proof (induction depth arbitrary: t e)
  case 0
  show ?case by (cases t) simp
next
  case (Suc depth)
  obtain c s l el i k cs where t: "t = Node c s l el i k cs" by (cases t)
  obtain a where st: "visit_node t e = (None, a)"
    using assms[of t e] by (cases "visit_node t e") simp
  have "fst (visit_each (\<lambda>child. NodeVisitor_visit rt visit_node depth child) cs a) =
          (if list_all (\<lambda>c. height c \<le> depth) cs then None else Some (recursion_error rt))"
    by (rule visit_each_raises) (rule Suc.IH)
  then show ?case using st unfolding t NodeVisitor_visit.simps height_le_Suc by simp
qed

lemma NodeVisitor_visit_completes:
  assumes "\<And>n a. fst (visit_node n a) = None" and "height t \<le> depth"
  shows "NodeVisitor_visit rt visit_node depth t e = (None, complete_visit (work visit_node) t e)"
proof -
  have "fst (NodeVisitor_visit rt visit_node depth t e) = None"
    using NodeVisitor_visit_raises[where visit_node = visit_node and rt = rt and depth = depth
        and t = t and e = e, OF assms(1)] assms(2) by simp
  then obtain e' where r: "NodeVisitor_visit rt visit_node depth t e = (None, e')"
    by (cases "NodeVisitor_visit rt visit_node depth t e") simp
  then show ?thesis using NodeVisitor_visit_completed[OF r] by simp
qed

subsection \<open>The steps of the visitors only append\<close>

lemma issues_append_issue [simp]: "issues (append_issue i e) = issues e @ [i]"
  by (simp add: append_issue_def)

lemma function_metrics_append_issue [simp]:
  "function_metrics (append_issue i e) = function_metrics e"
  by (simp add: append_issue_def)

lemma class_metrics_append_issue [simp]: "class_metrics (append_issue i e) = class_metrics e"
  by (simp add: append_issue_def)

lemma issues_fold_append_issue:
  "issues (fold (\<lambda>x. append_issue (g x)) xs e) = issues e @ map g xs"
  by (induction xs arbitrary: e) simp_all

lemma function_metrics_fold_append_issue:
  "function_metrics (fold (\<lambda>x. append_issue (g x)) xs e) = function_metrics e"
  by (induction xs arbitrary: e) simp_all

lemma appends_check_function_naming_consistency:
  "appends (check_function_naming_consistency rt lines fp node)"
  unfolding check_function_naming_consistency_def Let_def
  by (intro appends_fold appends_append_issue)

lemma appends_analyze_function_responsibility:
  "appends (analyze_function_responsibility lines fp node)"
proof -
  obtain m b1 i1 b2 i2 where
    "analyze_function_responsibility lines fp node =
       (\<lambda>e. (\<lambda>e. if b2 then append_issue i2 e else e)
              ((\<lambda>e. if b1 then append_issue i1 e else e)
                (e\<lparr>function_metrics := function_metrics e @ [m]\<rparr>)))"
    unfolding analyze_function_responsibility_def Let_def by blast
  then show ?thesis
    by (simp only: appends_comp[OF appends_comp[OF appends_add_function appends_when] appends_when])
qed

lemma appends_check_error_handling_consistency:
  "appends (check_error_handling_consistency lines fp node)"
  unfolding check_error_handling_consistency_def
  by (intro appends_fold appends_append_issue)

lemma appends_visit_FunctionDef: "appends (visit_FunctionDef rt lines fp node)"
proof -
  have "visit_FunctionDef rt lines fp node =
      (\<lambda>e. check_error_handling_consistency lines fp node
        (analyze_function_responsibility lines fp node
          (check_function_naming_consistency rt lines fp node e)))"
    by (simp add: visit_FunctionDef_def fun_eq_iff)
  then show ?thesis
    by (simp only: appends_comp[OF appends_comp[OF
          appends_check_function_naming_consistency appends_analyze_function_responsibility]
          appends_check_error_handling_consistency])
qed

lemma appends_BusinessLogicVisitor: "appends (work (BusinessLogicVisitor rt lines fp) node)"
proof -
  have "work (BusinessLogicVisitor rt lines fp) node =
      (\<lambda>e. if cls node = ''FunctionDef'' then visit_FunctionDef rt lines fp node e else e)"
    by (simp add: work_def BusinessLogicVisitor_def fun_eq_iff)
  then show ?thesis
    by (simp only: appends_if[OF appends_visit_FunctionDef appends_id])
qed

lemma appends_visit_For: "appends (visit_For lines fp node)"
proof -
  obtain b1 i1 b2 i2 where
    "visit_For lines fp node =
       (\<lambda>e. (\<lambda>e. if b2 then append_issue i2 e else e)
              ((\<lambda>e. if b1 then append_issue i1 e else e) e))"
    unfolding visit_For_def Let_def by blast
  then show ?thesis
    by (simp only: appends_comp[OF appends_when appends_when])
qed

lemma appends_PerformanceVisitor: "appends (work (PerformanceVisitor lines fp) node)"
proof -
  have "work (PerformanceVisitor lines fp) node =
      (\<lambda>e. if cls node = ''For'' then visit_For lines fp node e else e)"
    by (simp add: work_def PerformanceVisitor_def fun_eq_iff)
  then show ?thesis
    by (simp only: appends_if[OF appends_visit_For appends_id])
qed

lemma appends_visit_Assign: "appends (visit_Assign rt lines fp node)"
proof -
  have "visit_Assign rt lines fp node =
      (\<lambda>e. if hardcoded_secret rt node then append_issue
        \<lparr>severity = py ''critical'', category = py ''security'',
         message = msg_hardcoded_secret, file_path = fp, line_number = lineno node,
         code_snippet = snippet lines (lineno node),
         fix_suggestion = fix_hardcoded_secret, confidence = 0.8\<rparr> e else e)"
    by (simp add: visit_Assign_def fun_eq_iff)
  then show ?thesis by (simp only: appends_when)
qed

lemma appends_visit_Call: "appends (visit_Call lines fp node)"
  unfolding appends_def visit_Call_def
  by (simp add: append_issue_def engine_append_def empty_engine_def split: list.split)

lemma appends_SecurityVisitor: "appends (work (SecurityVisitor rt lines fp) node)"
proof -
  have "work (SecurityVisitor rt lines fp) node =
      (\<lambda>e. if cls node = ''Assign'' then visit_Assign rt lines fp node e
           else (\<lambda>e. if cls node = ''Call'' then visit_Call lines fp node e else e) e)"
    by (simp add: work_def SecurityVisitor_def fun_eq_iff)
  then show ?thesis
    by (simp only: appends_if[OF appends_visit_Assign appends_if[OF appends_visit_Call appends_id]])
qed

lemma appends_visit_ClassDef: "appends (\<lambda>e. snd (visit_ClassDef rt lines fp node e))"
proof (cases "detect_design_pattern rt node
        (filter (\<lambda>n. cls n = ''FunctionDef'') (field ''body'' node))")
  case (Inl exc)
  then have "(\<lambda>e. snd (visit_ClassDef rt lines fp node e)) = (\<lambda>e. e)"
    by (simp add: visit_ClassDef_def Let_def fun_eq_iff)
  then show ?thesis by (simp only: appends_id)
next
  case (Inr pattern)
  then obtain m b i where
    "(\<lambda>e. snd (visit_ClassDef rt lines fp node e)) =
       (\<lambda>e. (\<lambda>e. if b then append_issue i e else e)
              (e\<lparr>class_metrics := class_metrics e @ [m]\<rparr>))"
    unfolding visit_ClassDef_def Let_def by simp
  then show ?thesis
    by (simp only: appends_comp[OF appends_add_class appends_when])
qed

lemma appends_ArchitectureVisitor: "appends (work (ArchitectureVisitor rt lines fp) node)"
proof -
  have "work (ArchitectureVisitor rt lines fp) node =
      (\<lambda>e. if cls node = ''ClassDef'' then (\<lambda>e. snd (visit_ClassDef rt lines fp node e)) e else e)"
    by (simp add: work_def ArchitectureVisitor_def fun_eq_iff)
  then show ?thesis
    by (simp only: appends_if[OF appends_visit_ClassDef appends_id])
qed

lemma concat_map_if:
  "concat (map (\<lambda>n. if P n then [g n] else []) xs) = map g (filter P xs)"
  by (induction xs) simp_all

lemma filter_concat_map:
  "filter P (concat (map g xs)) = concat (map (\<lambda>x. filter P (g x)) xs)"
  by (induction xs) simp_all

lemma map_concat_map:
  "map f (concat (map g xs)) = concat (map (\<lambda>x. map f (g x)) xs)"
  by (induction xs) simp_all

subsection \<open>What each visit method adds\<close>

lemma issues_check_function_naming_consistency:
  "\<exists>xs. issues (check_function_naming_consistency rt lines fp node e) = issues e @ xs
        \<and> list_all (\<lambda>i. severity i = py ''warning'' \<and> category i = py ''logic''
                          \<and> confidence i = 0.7) xs"
  unfolding check_function_naming_consistency_def Let_def issues_fold_append_issue
  by (auto simp: list_all_iff)

lemma function_metrics_check_function_naming_consistency [simp]:
  "function_metrics (check_function_naming_consistency rt lines fp node e) = function_metrics e"
  unfolding check_function_naming_consistency_def Let_def
  by (rule function_metrics_fold_append_issue)

lemma issues_analyze_function_responsibility:
  "\<exists>xs. issues (analyze_function_responsibility lines fp node e) = issues e @ xs
        \<and> list_all (\<lambda>i. category i = py ''architecture''
              \<and> (severity i = py ''warning'' \<or> severity i = py ''suggestion'')) xs"
  unfolding analyze_function_responsibility_def Let_def
  by (simp add: append_issue_def)

lemma function_metrics_analyze_function_responsibility:
  "\<exists>m. function_metrics (analyze_function_responsibility lines fp node e) = function_metrics e @ [m]
       \<and> name m = ident node \<and> line_start m = lineno node
       \<and> async_function m = (cls node = ''AsyncFunctionDef'')"
  unfolding analyze_function_responsibility_def Let_def
  by (simp add: append_issue_def)

lemma issues_check_error_handling_consistency:
  "\<exists>xs. issues (check_error_handling_consistency lines fp node e) = issues e @ xs
        \<and> list_all is_bare_except_issue xs
        \<and> map line_number xs = map lineno (bare_excepts node)"
  unfolding check_error_handling_consistency_def issues_fold_append_issue
  by (simp add: list_all_iff is_bare_except_issue_def o_def)

lemma function_metrics_check_error_handling_consistency [simp]:
  "function_metrics (check_error_handling_consistency lines fp node e) = function_metrics e"
  unfolding check_error_handling_consistency_def
  by (rule function_metrics_fold_append_issue)

lemma filter_none: "list_all Q xs \<Longrightarrow> (\<And>i. Q i \<Longrightarrow> \<not> P i) \<Longrightarrow> filter P xs = []"
  by (induction xs) auto

lemma filter_all: "list_all P xs \<Longrightarrow> filter P xs = xs"
  by (induction xs) auto

lemma bare_issues_visit_FunctionDef:
  "map line_number (filter is_bare_except_issue (issues (visit_FunctionDef rt lines fp node e))) =
     map line_number (filter is_bare_except_issue (issues e)) @ map lineno (bare_excepts node)"
proof -
  let ?e1 = "check_function_naming_consistency rt lines fp node e"
  let ?e2 = "analyze_function_responsibility lines fp node ?e1"
  obtain xs1 where 1: "issues ?e1 = issues e @ xs1"
    and p1: "list_all (\<lambda>i. severity i = py ''warning'' \<and> category i = py ''logic''
                          \<and> confidence i = 0.7) xs1"
    using issues_check_function_naming_consistency by blast
  obtain xs2 where 2: "issues ?e2 = issues ?e1 @ xs2"
    and p2: "list_all (\<lambda>i. category i = py ''architecture''
              \<and> (severity i = py ''warning'' \<or> severity i = py ''suggestion'')) xs2"
    using issues_analyze_function_responsibility by blast
  obtain xs3 where 3: "issues (check_error_handling_consistency lines fp node ?e2) = issues ?e2 @ xs3"
    and p3: "list_all is_bare_except_issue xs3"
    and l3: "map line_number xs3 = map lineno (bare_excepts node)"
    using issues_check_error_handling_consistency by blast
  have f1: "filter is_bare_except_issue xs1 = []"
    by (rule filter_none[OF p1]) (simp add: is_bare_except_issue_def)
  have f2: "filter is_bare_except_issue xs2 = []"
    by (rule filter_none[OF p2]) (simp add: is_bare_except_issue_def)
  have f3: "filter is_bare_except_issue xs3 = xs3"
    by (rule filter_all[OF p3])
  show ?thesis
    by (simp add: visit_FunctionDef_def 1 2 3 f1 f2 f3 l3)
qed

lemma secret_issues_visit_FunctionDef:
  "filter is_hardcoded_secret_issue (issues (visit_FunctionDef rt lines fp node e)) =
     filter is_hardcoded_secret_issue (issues e)"
proof -
  let ?e1 = "check_function_naming_consistency rt lines fp node e"
  let ?e2 = "analyze_function_responsibility lines fp node ?e1"
  obtain xs1 where 1: "issues ?e1 = issues e @ xs1"
    and p1: "list_all (\<lambda>i. severity i = py ''warning'' \<and> category i = py ''logic''
                          \<and> confidence i = 0.7) xs1"
    using issues_check_function_naming_consistency by blast
  obtain xs2 where 2: "issues ?e2 = issues ?e1 @ xs2"
    and p2: "list_all (\<lambda>i. category i = py ''architecture''
              \<and> (severity i = py ''warning'' \<or> severity i = py ''suggestion'')) xs2"
    using issues_analyze_function_responsibility by blast
  obtain xs3 where 3: "issues (check_error_handling_consistency lines fp node ?e2) = issues ?e2 @ xs3"
    and p3: "list_all is_bare_except_issue xs3"
    using issues_check_error_handling_consistency by blast
  have f1: "filter is_hardcoded_secret_issue xs1 = []"
    by (rule filter_none[OF p1]) (simp add: is_hardcoded_secret_issue_def)
  have f2: "filter is_hardcoded_secret_issue xs2 = []"
    by (rule filter_none[OF p2]) (simp add: is_hardcoded_secret_issue_def)
  have f3: "filter is_hardcoded_secret_issue xs3 = []"
    by (rule filter_none[OF p3]) (simp add: is_hardcoded_secret_issue_def is_bare_except_issue_def)
  show ?thesis
    by (simp add: visit_FunctionDef_def 1 2 3 f1 f2 f3)
qed

lemma function_metrics_visit_FunctionDef:
  "\<exists>m. function_metrics (visit_FunctionDef rt lines fp node e) = function_metrics e @ [m]
       \<and> name m = ident node \<and> line_start m = lineno node
       \<and> async_function m = (cls node = ''AsyncFunctionDef'')"
proof -
  obtain m where
    "function_metrics (analyze_function_responsibility lines fp node
        (check_function_naming_consistency rt lines fp node e)) =
       function_metrics (check_function_naming_consistency rt lines fp node e) @ [m]"
    "name m = ident node" "line_start m = lineno node"
    "async_function m = (cls node = ''AsyncFunctionDef'')"
    using function_metrics_analyze_function_responsibility by blast
  then show ?thesis by (simp add: visit_FunctionDef_def)
qed

lemma issues_visit_For:
  "\<exists>xs. issues (visit_For lines fp node e) = issues e @ xs
        \<and> list_all (\<lambda>i. category i = py ''performance'') xs"
  unfolding visit_For_def Let_def by (simp add: append_issue_def)

lemma function_metrics_visit_For [simp]:
  "function_metrics (visit_For lines fp node e) = function_metrics e"
  unfolding visit_For_def Let_def by (simp add: append_issue_def)

lemma issues_visit_Assign:
  "issues (visit_Assign rt lines fp node e) =
     issues e @ (if hardcoded_secret rt node then
        [\<lparr>severity = py ''critical'', category = py ''security'',
          message = msg_hardcoded_secret, file_path = fp, line_number = lineno node,
          code_snippet = snippet lines (lineno node),
          fix_suggestion = fix_hardcoded_secret, confidence = 0.8\<rparr>] else [])"
  by (simp add: visit_Assign_def)

lemma function_metrics_visit_Assign [simp]:
  "function_metrics (visit_Assign rt lines fp node e) = function_metrics e"
  by (simp add: visit_Assign_def)

lemma issues_visit_Call:
  "\<exists>xs. issues (visit_Call lines fp node e) = issues e @ xs
        \<and> list_all (\<lambda>i. category i = py ''security'' \<and> confidence i = 0.95) xs"
  unfolding visit_Call_def by (simp split: list.split)

lemma function_metrics_visit_Call [simp]:
  "function_metrics (visit_Call lines fp node e) = function_metrics e"
  unfolding visit_Call_def by (simp split: list.split)

lemma issues_visit_ClassDef:
  "\<exists>xs. issues (snd (visit_ClassDef rt lines fp node e)) = issues e @ xs
        \<and> list_all (\<lambda>i. category i = py ''architecture'' \<and> confidence i = 0.8) xs"
  unfolding visit_ClassDef_def Let_def
  by (cases "detect_design_pattern rt node
        (filter (\<lambda>n. cls n = ''FunctionDef'') (field ''body'' node))")
     (simp_all add: append_issue_def)

lemma function_metrics_visit_ClassDef [simp]:
  "function_metrics (snd (visit_ClassDef rt lines fp node e)) = function_metrics e"
  unfolding visit_ClassDef_def Let_def
  by (cases "detect_design_pattern rt node
        (filter (\<lambda>n. cls n = ''FunctionDef'') (field ''body'' node))")
     (simp_all add: append_issue_def)

lemma concat_map_if_list:
  "concat (map (\<lambda>n. if P n then g n else []) xs) = concat (map g (filter P xs))"
  by (induction xs) simp_all

lemma concat_map_Nil [simp]: "concat (map (\<lambda>n. []) xs) = []"
  by (induction xs) simp_all

subsection \<open>What each visitor adds at a node\<close>

lemma bare_issues_BusinessLogicVisitor:
  "map line_number (filter is_bare_except_issue
       (issues (work (BusinessLogicVisitor rt lines fp) n empty_engine))) =
     (if cls n = ''FunctionDef'' then map lineno (bare_excepts n) else [])"
  by (simp add: work_def BusinessLogicVisitor_def bare_issues_visit_FunctionDef)

lemma secret_issues_BusinessLogicVisitor:
  "filter is_hardcoded_secret_issue (issues (work (BusinessLogicVisitor rt lines fp) n empty_engine)) = []"
  by (simp add: work_def BusinessLogicVisitor_def secret_issues_visit_FunctionDef)

lemma function_metrics_BusinessLogicVisitor:
  "map name (function_metrics (work (BusinessLogicVisitor rt lines fp) n empty_engine)) =
     (if cls n = ''FunctionDef'' then [ident n] else [])"
  "map line_start (function_metrics (work (BusinessLogicVisitor rt lines fp) n empty_engine)) =
     (if cls n = ''FunctionDef'' then [lineno n] else [])"
  "map async_function (function_metrics (work (BusinessLogicVisitor rt lines fp) n empty_engine)) =
     (if cls n = ''FunctionDef'' then [False] else [])"
  using function_metrics_visit_FunctionDef[of rt lines fp n empty_engine]
  by (auto simp: work_def BusinessLogicVisitor_def)

lemma issues_PerformanceVisitor:
  "filter is_bare_except_issue (issues (work (PerformanceVisitor lines fp) n empty_engine)) = []"
  "filter is_hardcoded_secret_issue (issues (work (PerformanceVisitor lines fp) n empty_engine)) = []"
proof -
  obtain xs where "issues (visit_For lines fp n empty_engine) = xs"
    and p: "list_all (\<lambda>i. category i = py ''performance'') xs"
    using issues_visit_For[of lines fp n empty_engine] by auto
  moreover have "filter is_bare_except_issue xs = []"
    by (rule filter_none[OF p]) (simp add: is_bare_except_issue_def)
  moreover have "filter is_hardcoded_secret_issue xs = []"
    by (rule filter_none[OF p]) (simp add: is_hardcoded_secret_issue_def)
  ultimately show
    "filter is_bare_except_issue (issues (work (PerformanceVisitor lines fp) n empty_engine)) = []"
    "filter is_hardcoded_secret_issue (issues (work (PerformanceVisitor lines fp) n empty_engine)) = []"
    by (simp_all add: work_def PerformanceVisitor_def)
qed

lemma function_metrics_PerformanceVisitor [simp]:
  "function_metrics (work (PerformanceVisitor lines fp) n e) = function_metrics e"
  by (simp add: work_def PerformanceVisitor_def)

lemma bare_issues_SecurityVisitor:
  "filter is_bare_except_issue (issues (work (SecurityVisitor rt lines fp) n empty_engine)) = []"
proof -
  obtain xs where c: "issues (visit_Call lines fp n empty_engine) = xs"
    and p: "list_all (\<lambda>i. category i = py ''security'' \<and> confidence i = 0.95) xs"
    using issues_visit_Call[of lines fp n empty_engine] by auto
  have "filter is_bare_except_issue xs = []"
    by (rule filter_none[OF p]) (simp add: is_bare_except_issue_def)
  with c show ?thesis
    by (simp add: work_def SecurityVisitor_def issues_visit_Assign is_bare_except_issue_def)
qed

lemma secret_issues_SecurityVisitor:
  "map line_number (filter is_hardcoded_secret_issue
       (issues (work (SecurityVisitor rt lines fp) n empty_engine))) =
     (if cls n = ''Assign'' \<and> hardcoded_secret rt n then [lineno n] else [])"
proof -
  obtain xs where c: "issues (visit_Call lines fp n empty_engine) = xs"
    and p: "list_all (\<lambda>i. category i = py ''security'' \<and> confidence i = 0.95) xs"
    using issues_visit_Call[of lines fp n empty_engine] by auto
  have "filter is_hardcoded_secret_issue xs = []"
    by (rule filter_none[OF p]) (simp add: is_hardcoded_secret_issue_def)
  with c show ?thesis
    by (simp add: work_def SecurityVisitor_def issues_visit_Assign is_hardcoded_secret_issue_def)
qed

lemma function_metrics_SecurityVisitor [simp]:
  "function_metrics (work (SecurityVisitor rt lines fp) n e) = function_metrics e"
  by (simp add: work_def SecurityVisitor_def)

lemma issues_ArchitectureVisitor:
  "filter is_bare_except_issue (issues (work (ArchitectureVisitor rt lines fp) n empty_engine)) = []"
  "filter is_hardcoded_secret_issue (issues (work (ArchitectureVisitor rt lines fp) n empty_engine)) = []"
proof -
  obtain xs where "issues (snd (visit_ClassDef rt lines fp n empty_engine)) = xs"
    and p: "list_all (\<lambda>i. category i = py ''architecture'' \<and> confidence i = 0.8) xs"
    using issues_visit_ClassDef[of rt lines fp n empty_engine] by auto
  moreover have "filter is_bare_except_issue xs = []"
    by (rule filter_none[OF p]) (simp add: is_bare_except_issue_def)
  moreover have "filter is_hardcoded_secret_issue xs = []"
    by (rule filter_none[OF p]) (simp add: is_hardcoded_secret_issue_def)
  ultimately show
    "filter is_bare_except_issue (issues (work (ArchitectureVisitor rt lines fp) n empty_engine)) = []"
    "filter is_hardcoded_secret_issue (issues (work (ArchitectureVisitor rt lines fp) n empty_engine)) = []"
    by (simp_all add: work_def ArchitectureVisitor_def)
qed

lemma function_metrics_ArchitectureVisitor [simp]:
  "function_metrics (work (ArchitectureVisitor rt lines fp) n e) = function_metrics e"
  by (simp add: work_def ArchitectureVisitor_def)

subsection \<open>The four analyzers on a tree, when none raises\<close>

lemma issues_run_analyzers:
  "issues (run_analyzers rt tree lines fp) =
     concat (map (\<lambda>n. issues (work (BusinessLogicVisitor rt lines fp) n empty_engine)) (subtree tree))
     @ concat (map (\<lambda>n. issues (work (PerformanceVisitor lines fp) n empty_engine)) (subtree tree))
     @ concat (map (\<lambda>n. issues (work (SecurityVisitor rt lines fp) n empty_engine)) (subtree tree))
     @ concat (map (\<lambda>n. issues (work (ArchitectureVisitor rt lines fp) n empty_engine)) (subtree tree))"
  unfolding run_analyzers_def
  by (simp add: issues_complete_visit[OF appends_BusinessLogicVisitor]
      issues_complete_visit[OF appends_PerformanceVisitor]
      issues_complete_visit[OF appends_SecurityVisitor]
      issues_complete_visit[OF appends_ArchitectureVisitor])

lemma function_metrics_run_analyzers:
  "function_metrics (run_analyzers rt tree lines fp) =
     concat (map (\<lambda>n. function_metrics (work (BusinessLogicVisitor rt lines fp) n empty_engine))
       (subtree tree))"
  unfolding run_analyzers_def
  by (simp add: function_metrics_complete_visit[OF appends_BusinessLogicVisitor]
      function_metrics_complete_visit[OF appends_PerformanceVisitor]
      function_metrics_complete_visit[OF appends_SecurityVisitor]
      function_metrics_complete_visit[OF appends_ArchitectureVisitor])

lemma bare_issue_lines_run_analyzers:
  "map line_number (filter is_bare_except_issue (issues (run_analyzers rt tree lines fp))) =
     map lineno (concat (map bare_excepts (function_defs tree)))"
  by (simp add: issues_run_analyzers filter_concat_map map_concat_map
      bare_issues_BusinessLogicVisitor issues_PerformanceVisitor bare_issues_SecurityVisitor
      issues_ArchitectureVisitor concat_map_if_list function_defs_def o_def)

lemma secret_issue_lines_run_analyzers:
  "map line_number (filter is_hardcoded_secret_issue (issues (run_analyzers rt tree lines fp))) =
     map lineno (filter (\<lambda>n. cls n = ''Assign'' \<and> hardcoded_secret rt n) (subtree tree))"
  by (simp add: issues_run_analyzers filter_concat_map map_concat_map
      secret_issues_BusinessLogicVisitor issues_PerformanceVisitor secret_issues_SecurityVisitor
      issues_ArchitectureVisitor concat_map_if)

lemma function_metrics_fields_run_analyzers:
  "map name (function_metrics (run_analyzers rt tree lines fp)) = map ident (function_defs tree)"
  "map line_start (function_metrics (run_analyzers rt tree lines fp)) =
     map lineno (function_defs tree)"
  "map async_function (function_metrics (run_analyzers rt tree lines fp)) =
     map (\<lambda>n. False) (function_defs tree)"
  by (simp_all add: function_metrics_run_analyzers map_concat_map
      function_metrics_BusinessLogicVisitor concat_map_if function_defs_def)

subsection \<open>The result of \<open>analyze_file\<close>\<close>

lemma reset_engine:
  "e\<lparr>issues := [], function_metrics := [], class_metrics := []\<rparr> = empty_engine"
  by (simp add: empty_engine_def)

lemma completed_result_entries [simp]:
  "map_of (completed_result fp e) (py ''error'') = None"
  "result_issues (completed_result fp e) = issues e"
  "result_function_metrics (completed_result fp e) = function_metrics e"
  "result_score (completed_result fp e) = Some (calculate_quality_score e)"
  by (simp_all add: completed_result_def result_issues_def result_function_metrics_def
      result_score_def)

lemma failed_result_entries [simp]:
  "map_of (failed_result fp exc) (py ''error'') = Some (PyStr (err_failed @ exc))"
  "result_issues (failed_result fp exc) = []"
  "result_function_metrics (failed_result fp exc) = []"
  "result_score (failed_result fp exc) = None"
  by (simp_all add: failed_result_def result_issues_def result_function_metrics_def
      result_score_def)

text \<open>
  On a file that is read and parsed, either an analyzer raises and the result is the
  dictionary of the handler, or the result is made from what the four complete visits leave.
\<close>

lemma analyze_file_parsed:
  assumes "fs fp = Some (Text source_code)" "ast_parse rt source_code = Parsed tree"
  shows "(\<exists>exc e1. analyze_file rt fs fp e = (failed_result fp exc, e1))
       \<or> analyze_file rt fs fp e =
           (completed_result fp (run_analyzers rt tree (split_lines source_code) fp),
            run_analyzers rt tree (split_lines source_code) fp)"
proof -
  define lines where "lines = split_lines source_code"
  obtain x1 e1 where 1: "analyze_business_logic rt tree lines fp empty_engine = (x1, e1)"
    by (cases "analyze_business_logic rt tree lines fp empty_engine")
  obtain x2 e2 where 2: "analyze_performance_patterns rt tree lines fp e1 = (x2, e2)"
    by (cases "analyze_performance_patterns rt tree lines fp e1")
  obtain x3 e3 where 3: "analyze_security_risks rt tree lines fp e2 = (x3, e3)"
    by (cases "analyze_security_risks rt tree lines fp e2")
  obtain x4 e4 where 4: "analyze_architecture_decisions rt tree lines fp e3 = (x4, e4)"
    by (cases "analyze_architecture_decisions rt tree lines fp e3")
  have unfold: "analyze_file rt fs fp e =
      (case x1 of Some exc \<Rightarrow> (failed_result fp exc, e1) | None \<Rightarrow>
       (case x2 of Some exc \<Rightarrow> (failed_result fp exc, e2) | None \<Rightarrow>
        (case x3 of Some exc \<Rightarrow> (failed_result fp exc, e3) | None \<Rightarrow>
         (case x4 of Some exc \<Rightarrow> (failed_result fp exc, e4) | None \<Rightarrow>
            (completed_result fp e4, e4)))))"
    using 1 2 3 4 assms
    by (simp add: analyze_file_def Let_def reset_engine lines_def[symmetric] failed_result_def
        completed_result_def split: option.split)
  show ?thesis
  proof (cases "x1 = None \<and> x2 = None \<and> x3 = None \<and> x4 = None")
    case False
    then show ?thesis unfolding unfold by (auto split: option.split)
  next
    case True
    have "e1 = complete_visit (work (BusinessLogicVisitor rt lines fp)) tree empty_engine"
      using 1 True unfolding analyze_business_logic_def by (simp add: NodeVisitor_visit_completed)
    moreover have "e2 = complete_visit (work (PerformanceVisitor lines fp)) tree e1"
      using 2 True unfolding analyze_performance_patterns_def
      by (simp add: NodeVisitor_visit_completed)
    moreover have "e3 = complete_visit (work (SecurityVisitor rt lines fp)) tree e2"
      using 3 True unfolding analyze_security_risks_def by (simp add: NodeVisitor_visit_completed)
    moreover have "e4 = complete_visit (work (ArchitectureVisitor rt lines fp)) tree e3"
      using 4 True unfolding analyze_architecture_decisions_def
      by (simp add: NodeVisitor_visit_completed)
    ultimately have "e4 = run_analyzers rt tree lines fp" by (simp add: run_analyzers_def)
    then show ?thesis unfolding unfold using True by (simp add: lines_def)
  qed
qed

text \<open>A result without an \<open>error\<close> entry is that of a completed analysis.\<close>

lemma analyze_file_completed:
  assumes "fs fp = Some (Text source_code)" "ast_parse rt source_code = Parsed tree"
    and "map_of (fst (analyze_file rt fs fp e)) (py ''error'') = None"
  shows "analyze_file rt fs fp e =
           (completed_result fp (run_analyzers rt tree (split_lines source_code) fp),
            run_analyzers rt tree (split_lines source_code) fp)"
  using analyze_file_parsed[where fs = fs and fp = fp and rt = rt and e = e
          and source_code = source_code and tree = tree] assms
  by auto

lemma analyze_file_not_parsed:
  assumes "\<not> (\<exists>source_code tree. fs fp = Some (Text source_code)
              \<and> ast_parse rt source_code = Parsed tree)"
  shows "result_issues (fst (analyze_file rt fs fp e)) = []"
    and "result_function_metrics (fst (analyze_file rt fs fp e)) = []"
    and "result_score (fst (analyze_file rt fs fp e)) = None"
    and "snd (analyze_file rt fs fp e) = e"
  using assms
  by (auto simp: analyze_file_def Let_def result_issues_def result_function_metrics_def
      result_score_def split: option.splits file_entry.splits parse_result.splits)

text \<open>
  Every result either has none of the entries \<open>issues\<close>, \<open>function_metrics\<close> and
  \<open>overall_quality_score\<close>, or is that of a completed analysis of a parsed tree.
\<close>

lemma analyze_file_cases:
  obtains (no_entries) "result_issues (fst (analyze_file rt fs fp e)) = []"
      "result_function_metrics (fst (analyze_file rt fs fp e)) = []"
      "result_score (fst (analyze_file rt fs fp e)) = None"
  | (completed) source_code tree where
      "fs fp = Some (Text source_code)" "ast_parse rt source_code = Parsed tree"
      "analyze_file rt fs fp e =
           (completed_result fp (run_analyzers rt tree (split_lines source_code) fp),
            run_analyzers rt tree (split_lines source_code) fp)"
proof (cases "\<exists>source_code tree. fs fp = Some (Text source_code)
              \<and> ast_parse rt source_code = Parsed tree")
  case False
  then show ?thesis using analyze_file_not_parsed[of fs fp rt e] no_entries by blast
next
  case True
  then obtain source_code tree where p: "fs fp = Some (Text source_code)"
    "ast_parse rt source_code = Parsed tree" by blast
  from analyze_file_parsed[where fs = fs and fp = fp and rt = rt and e = e
          and source_code = source_code and tree = tree] p
  have "(\<exists>exc e1. analyze_file rt fs fp e = (failed_result fp exc, e1))
       \<or> analyze_file rt fs fp e =
           (completed_result fp (run_analyzers rt tree (split_lines source_code) fp),
            run_analyzers rt tree (split_lines source_code) fp)"
    by simp
  then show ?thesis
  proof
    assume "\<exists>exc e1. analyze_file rt fs fp e = (failed_result fp exc, e1)"
    then obtain exc e1 where "analyze_file rt fs fp e = (failed_result fp exc, e1)" by blast
    then show ?thesis using no_entries by simp
  next
    assume "analyze_file rt fs fp e =
           (completed_result fp (run_analyzers rt tree (split_lines source_code) fp),
            run_analyzers rt tree (split_lines source_code) fp)"
    with p show ?thesis using completed by blast
  qed
qed

text \<open>The result does not depend on the engine that the analysis starts from.\<close>

lemma fst_analyze_file_any_engine:
  "fst (analyze_file rt fs fp e) = fst (analyze_file rt fs fp e')"
  by (simp add: analyze_file_def Let_def reset_engine
      split: option.split file_entry.split parse_result.split)

text \<open>When the analysis completes, and when it does not.\<close>

lemma any_dump_contains_Inr:
  assumes "\<And>m. \<not> isl (ast_dump rt m)"
  shows "\<not> isl (any_dump_contains rt sub methods)"
proof (induction methods)
  case Nil
  show ?case by simp
next
  case (Cons m methods)
  obtain dumped where "ast_dump rt m = Inr dumped"
    using assms[of m] by (cases "ast_dump rt m") simp_all
  with Cons show ?case by simp
qed

lemma ArchitectureVisitor_no_exception:
  assumes "\<And>m. \<not> isl (ast_dump rt m)"
  shows "fst (ArchitectureVisitor rt lines fp n a) = None"
proof -
  let ?methods = "filter (\<lambda>n. cls n = ''FunctionDef'') (field ''body'' n)"
  obtain found where "any_dump_contains rt (py ''instance'') ?methods = Inr found"
    using any_dump_contains_Inr[OF assms, of "py ''instance''" ?methods]
    by (cases "any_dump_contains rt (py ''instance'') ?methods") simp_all
  then have "\<not> isl (detect_design_pattern rt n ?methods)"
    by (simp add: detect_design_pattern_def Let_def)
  then obtain pattern where "detect_design_pattern rt n ?methods = Inr pattern"
    by (cases "detect_design_pattern rt n ?methods") simp_all
  then show ?thesis by (simp add: ArchitectureVisitor_def visit_ClassDef_def Let_def)
qed

lemma analyze_file_completes:
  assumes "fs fp = Some (Text source_code)" "ast_parse rt source_code = Parsed tree"
    and "height tree \<le> stack_depth rt" and "\<And>m. \<not> isl (ast_dump rt m)"
  shows "analyze_file rt fs fp e =
           (completed_result fp (run_analyzers rt tree (split_lines source_code) fp),
            run_analyzers rt tree (split_lines source_code) fp)"
proof -
  have b: "fst (BusinessLogicVisitor rt lines fp n a) = None" for lines n a
    by (simp add: BusinessLogicVisitor_def)
  have p: "fst (PerformanceVisitor lines fp n a) = None" for lines n a
    by (simp add: PerformanceVisitor_def)
  have s: "fst (SecurityVisitor rt lines fp n a) = None" for lines n a
    by (simp add: SecurityVisitor_def)
  have a: "fst (ArchitectureVisitor rt lines fp n a) = None" for lines n a
    by (rule ArchitectureVisitor_no_exception[OF assms(4)])
  show ?thesis
    using assms(1,2)
    by (simp add: analyze_file_def Let_def reset_engine analyze_business_logic_def
        analyze_performance_patterns_def analyze_security_risks_def
        analyze_architecture_decisions_def
        NodeVisitor_visit_completes[OF b assms(3)] NodeVisitor_visit_completes[OF p assms(3)]
        NodeVisitor_visit_completes[OF s assms(3)] NodeVisitor_visit_completes[OF a assms(3)]
        run_analyzers_def completed_result_def)
qed

text \<open>
  A tree higher than the stack is deep makes the first analyzer raise \<open>RecursionError\<close>:
  the result is the dictionary of the handler for exceptions.
\<close>

lemma analyze_file_too_deep:
  assumes "fs fp = Some (Text source_code)" "ast_parse rt source_code = Parsed tree"
    and "stack_depth rt < height tree"
  shows "fst (analyze_file rt fs fp e) = failed_result fp (recursion_error rt)"
proof -
  have b: "fst (BusinessLogicVisitor rt lines fp n a) = None" for lines n a
    by (simp add: BusinessLogicVisitor_def)
  have "fst (analyze_business_logic rt tree (split_lines source_code) fp empty_engine)
          = Some (recursion_error rt)"
    unfolding analyze_business_logic_def
    using NodeVisitor_visit_raises[where visit_node = "BusinessLogicVisitor rt (split_lines source_code) fp"
        and rt = rt and depth = "stack_depth rt" and t = tree and e = empty_engine, OF b] assms(3)
    by simp
  then obtain e1 where
    "analyze_business_logic rt tree (split_lines source_code) fp empty_engine
       = (Some (recursion_error rt), e1)"
    by (cases "analyze_business_logic rt tree (split_lines source_code) fp empty_engine") simp
  then show ?thesis using assms(1,2)
    by (simp add: analyze_file_def Let_def reset_engine failed_result_def)
qed

text \<open>The example runtime completes the analysis of a tree of at most 450 levels.\<close>

lemma example_analysis:
  assumes "height tree \<le> 450"
  shows "analyze_file (example_runtime source tree) (single_file path source) path e =
           (completed_result path
              (run_analyzers (example_runtime source tree) tree (split_lines source) path),
            run_analyzers (example_runtime source tree) tree (split_lines source) path)"
  by (rule analyze_file_completes) (simp_all add: single_file_def example_runtime_def assms)

subsection \<open>Quality score\<close>

lemma fold_penalty:
  "fold (\<lambda>issue total_penalty.
       if severity issue = py ''critical'' then total_penalty + 20 * confidence issue
       else if severity issue = py ''warning'' then total_penalty + 10 * confidence issue
       else total_penalty + 5 * confidence issue) xs a
   = a + (\<Sum>i\<leftarrow>xs. confidence i * severity_weight (severity i))"
  by (induction xs arbitrary: a) (simp_all add: severity_weight_def)

lemma round_half_even_bounds:
  assumes "0 \<le> x" "x \<le> of_int m"
  shows "0 \<le> round_half_even x \<and> round_half_even x \<le> m"
proof -
  have f0: "0 \<le> \<lfloor>x\<rfloor>" using assms(1) by simp
  have fm: "\<lfloor>x\<rfloor> \<le> m" using assms(2) by (simp add: floor_le_iff)
  have "\<lfloor>x\<rfloor> + 1 \<le> m" if "0 < x - of_int \<lfloor>x\<rfloor>"
  proof -
    from that have "of_int \<lfloor>x\<rfloor> < x" by simp
    with assms(2) have "(of_int \<lfloor>x\<rfloor> :: real) < of_int m" by linarith
    then show ?thesis by simp
  qed
  with f0 fm show ?thesis
    unfolding round_half_even_def Let_def by auto
qed

lemma round1_bounds:
  assumes "0 \<le> x" "x \<le> 100"
  shows "0 \<le> round1 x \<and> round1 x \<le> 100"
proof -
  have "0 \<le> round_half_even (x * 10) \<and> round_half_even (x * 10) \<le> 1000"
    using assms by (intro round_half_even_bounds) simp_all
  then show ?thesis unfolding round1_def by simp
qed

lemma round1_100: "round1 100 = 100"
  by (simp add: round1_def round_half_even_def)

lemma confidence_visit_FunctionDef:
  "list_all confidence_in_range (issues (visit_FunctionDef rt lines fp node empty_engine))"
proof -
  let ?e1 = "check_function_naming_consistency rt lines fp node empty_engine"
  let ?e2 = "analyze_function_responsibility lines fp node ?e1"
  obtain xs1 where 1: "issues ?e1 = issues empty_engine @ xs1"
    and p1: "list_all (\<lambda>i. severity i = py ''warning'' \<and> category i = py ''logic''
                          \<and> confidence i = 0.7) xs1"
    using issues_check_function_naming_consistency by blast
  have 2: "list_all confidence_in_range (issues ?e2)"
    if "list_all confidence_in_range (issues ?e1)"
    using that unfolding analyze_function_responsibility_def Let_def
    by (simp add: append_issue_def confidence_in_range_def)
  obtain xs3 where 3: "issues (check_error_handling_consistency lines fp node ?e2) = issues ?e2 @ xs3"
    and p3: "list_all is_bare_except_issue xs3"
    using issues_check_error_handling_consistency by blast
  have "list_all confidence_in_range xs1"
    using p1 by (auto simp: list_all_iff confidence_in_range_def)
  then have "list_all confidence_in_range (issues ?e1)" by (simp add: 1)
  then have "list_all confidence_in_range (issues ?e2)" by (rule 2)
  moreover have "list_all confidence_in_range xs3"
    using p3 by (auto simp: list_all_iff confidence_in_range_def is_bare_except_issue_def)
  ultimately show ?thesis by (simp add: visit_FunctionDef_def 3)
qed

lemma confidence_BusinessLogicVisitor:
  "list_all confidence_in_range (issues (work (BusinessLogicVisitor rt lines fp) n empty_engine))"
  by (simp add: work_def BusinessLogicVisitor_def confidence_visit_FunctionDef)

lemma confidence_PerformanceVisitor:
  "list_all confidence_in_range (issues (work (PerformanceVisitor lines fp) n empty_engine))"
  by (simp add: work_def PerformanceVisitor_def visit_For_def Let_def append_issue_def
      confidence_in_range_def)

lemma confidence_SecurityVisitor:
  "list_all confidence_in_range (issues (work (SecurityVisitor rt lines fp) n empty_engine))"
  by (simp add: work_def SecurityVisitor_def visit_Assign_def visit_Call_def append_issue_def
      confidence_in_range_def split: list.split)

lemma confidence_ArchitectureVisitor:
  "list_all confidence_in_range (issues (work (ArchitectureVisitor rt lines fp) n empty_engine))"
proof -
  obtain xs where "issues (snd (visit_ClassDef rt lines fp n empty_engine)) = xs"
    and p: "list_all (\<lambda>i. category i = py ''architecture'' \<and> confidence i = 0.8) xs"
    using issues_visit_ClassDef[of rt lines fp n empty_engine] by auto
  moreover have "list_all confidence_in_range xs"
    using p by (auto simp: list_all_iff confidence_in_range_def)
  ultimately show ?thesis by (simp add: work_def ArchitectureVisitor_def)
qed

lemma list_all_concat_map:
  "(\<And>x. list_all P (g x)) \<Longrightarrow> list_all P (concat (map g xs))"
  by (induction xs) simp_all

text \<open>Every issue that the analyzers accumulate has its confidence between 0 and 1.\<close>

lemma confidence_run_analyzers:
  "list_all confidence_in_range (issues (run_analyzers rt tree lines fp))"
  unfolding issues_run_analyzers
  by (simp add: list_all_concat_map confidence_BusinessLogicVisitor confidence_PerformanceVisitor
      confidence_SecurityVisitor confidence_ArchitectureVisitor)

lemma result_score_analyze_file:
  assumes "result_score (fst (analyze_file rt fs fp e)) = Some s"
  shows "\<exists>source_code tree.
           s = calculate_quality_score (run_analyzers rt tree (split_lines source_code) fp)"
proof (cases rule: analyze_file_cases[of rt fs fp e])
  case no_entries
  with assms show ?thesis by simp
next
  case (completed source_code tree)
  with assms show ?thesis by auto
qed

lemma quality_score_eq:
  "calculate_quality_score e =
     round1 (max 0 (100 - (\<Sum>i\<leftarrow>issues e. confidence i * severity_weight (severity i))))"
  by (simp add: calculate_quality_score_def fold_penalty round1_100)

lemma quality_score_bounds:
  assumes "list_all (\<lambda>i. 0 \<le> confidence i) (issues e)"
  shows "0 \<le> calculate_quality_score e \<and> calculate_quality_score e \<le> 100"
proof -
  let ?p = "\<Sum>i\<leftarrow>issues e. confidence i * severity_weight (severity i)"
  have "0 \<le> ?p"
    using assms by (intro sum_list_nonneg) (auto simp: severity_weight_def list_all_iff)
  then have "0 \<le> max 0 (100 - ?p)" "max 0 (100 - ?p) \<le> 100" by simp_all
  then have "0 \<le> round1 (max 0 (100 - ?p)) \<and> round1 (max 0 (100 - ?p)) \<le> 100"
    by (rule round1_bounds)
  then show ?thesis by (simp only: quality_score_eq)
qed

lemma result_score_bounds:
  assumes "result_score (fst (analyze_file rt fs fp e)) = Some s"
  shows "0 \<le> s \<and> s \<le> 100"
proof -
  obtain source_code tree where
    s: "s = calculate_quality_score (run_analyzers rt tree (split_lines source_code) fp)"
    using result_score_analyze_file[OF assms] by blast
  have "list_all (\<lambda>i. 0 \<le> confidence i)
          (issues (run_analyzers rt tree (split_lines source_code) fp))"
    using confidence_run_analyzers[of rt tree "split_lines source_code" fp]
    by (auto simp: list_all_iff confidence_in_range_def)
  then show ?thesis unfolding s by (rule quality_score_bounds)
qed

text \<open>
  Claim C1. For every list of accumulated issues the quality score is
  \<open>max(0, 100 - sum of confidence * weight)\<close> rounded to one decimal, the weight being 20 for
  critical, 10 for warning and 5 for suggestion; the score lies between 0 and 100; and for
  the empty issue list it is exactly 100. The bounds hold for every issue list without a
  negative confidence (the record declares the confidence to lie between 0.0 and 1.0); the
  issues that the analyzers accumulate are such, so the score in every result of
  \<open>analyze_file\<close> lies between 0 and 100.
\<close>

theorem quality_score:
  "calculate_quality_score e =
     round1 (max 0 (100 - (\<Sum>i\<leftarrow>issues e. confidence i * severity_weight (severity i))))
   \<and> (list_all (\<lambda>i. 0 \<le> confidence i) (issues e) \<longrightarrow>
        0 \<le> calculate_quality_score e \<and> calculate_quality_score e \<le> 100)
   \<and> (issues e = [] \<longrightarrow> calculate_quality_score e = 100)
   \<and> (result_score (fst (analyze_file rt fs fp e')) = Some s \<longrightarrow> 0 \<le> s \<and> s \<le> 100)"
  using quality_score_eq[of e] quality_score_bounds[of e]
    result_score_bounds[of rt fs fp e' s]
  by (simp add: calculate_quality_score_def)

lemma issues_function_try:
  "map (\<lambda>i. (severity i, confidence i))
     (issues (run_analyzers (example_runtime function_try_source function_try) function_try
        (split_lines function_try_source) (py ''m.py'')))
   = [(py ''warning'', 0.9)]"
  unfolding issues_run_analyzers
  by (simp add: function_try_def node_defs work_def BusinessLogicVisitor_def work_def PerformanceVisitor_def
      work_def SecurityVisitor_def work_def ArchitectureVisitor_def visit_FunctionDef_def
      check_function_naming_consistency_def analyze_function_responsibility_def
      check_error_handling_consistency_def calculate_cyclomatic_complexity_def
      bare_excepts_def args_args_def walk_def field_def lower_def ascii_lower_def
      append_issue_def Let_def extract_function_operations_def detect_design_pattern_def
      visit_ClassDef_def py_def)

lemma quality_score_by_pairs:
  "calculate_quality_score e =
     round1 (max 0 (100 - (\<Sum>(s, c)\<leftarrow>map (\<lambda>i. (severity i, confidence i)) (issues e).
        c * severity_weight s)))"
  by (simp add: quality_score_eq o_def)

theorem quality_score_witness:
  "list_all (\<lambda>i. 0 \<le> confidence i) (issues two_issues)
   \<and> calculate_quality_score two_issues = 77
   \<and> calculate_quality_score empty_engine = 100
   \<and> result_score (fst (analyze_file (example_runtime function_try_source function_try)
           (single_file (py ''m.py'') function_try_source) (py ''m.py'') empty_engine)) = Some 91"
proof -
  let ?rt = "example_runtime function_try_source function_try"
  let ?fs = "single_file (py ''m.py'') function_try_source"
  have a: "list_all (\<lambda>i. 0 \<le> confidence i) (issues two_issues)"
    by (simp add: two_issues_def)
  have b: "calculate_quality_score two_issues = 77"
    using quality_score[of two_issues]
    by (simp add: two_issues_def severity_weight_def round1_def round_half_even_def)
  have c: "calculate_quality_score empty_engine = 100"
    using quality_score[of empty_engine] by (simp add: round1_100)
  have "result_score (fst (analyze_file ?rt ?fs (py ''m.py'') empty_engine)) =
      Some (calculate_quality_score
        (run_analyzers ?rt function_try (split_lines function_try_source) (py ''m.py'')))"
    by (simp add: example_analysis function_try_def node_defs)
  also have "calculate_quality_score
        (run_analyzers ?rt function_try (split_lines function_try_source) (py ''m.py'')) = 91"
    unfolding quality_score_by_pairs issues_function_try
    by (simp add: severity_weight_def round1_def round_half_even_def)
  finally have d: "result_score (fst (analyze_file ?rt ?fs (py ''m.py'') empty_engine)) = Some 91" .
  from a b c d show ?thesis by simp
qed

subsection \<open>Cyclomatic complexity\<close>

lemma fold_weight:
  "fold (\<lambda>x (acc::nat). acc + w x) xs a = a + sum_list (map w xs)"
  by (induction xs arbitrary: a) simp_all

lemma complexity_as_sum:
  "calculate_cyclomatic_complexity node = 1 + sum_list (map complexity_weight (walk node))"
proof -
  have "(\<lambda>child complexity.
        if cls child \<in> set [''If'', ''While'', ''For'', ''AsyncFor'', ''With'', ''AsyncWith'']
        then complexity + 1
        else if cls child = ''Try'' then complexity + length (field ''handlers'' child)
        else if cls child \<in> set [''And'', ''Or''] then complexity + 1
        else complexity) = (\<lambda>child complexity. complexity + complexity_weight child)"
    by (intro ext) (simp add: complexity_weight_def)
  then show ?thesis
    unfolding calculate_cyclomatic_complexity_def by (simp only: fold_weight)
qed

lemma sum_complexity_weight:
  "sum_list (map complexity_weight xs) =
     length (filter (\<lambda>n. cls n \<in> set [''If'', ''While'', ''For'', ''AsyncFor'', ''With'', ''AsyncWith'']) xs)
     + sum_list (map (\<lambda>n. length (field ''handlers'' n)) (filter (\<lambda>n. cls n = ''Try'') xs))
     + length (filter (\<lambda>n. cls n \<in> set [''And'', ''Or'']) xs)"
  by (induction xs) (auto simp: complexity_weight_def)

text \<open>
  Claim C2, amended. The cyclomatic complexity of a function definition is 1, plus one for
  every \<open>If\<close>, \<open>While\<close>, \<open>For\<close>, \<open>AsyncFor\<close>, \<open>With\<close> and \<open>AsyncWith\<close> node of its subtree, plus
  the number of handlers of every \<open>Try\<close> node, plus one for every \<open>And\<close> and \<open>Or\<close> node. A
  function whose subtree has no conditional, loop, with-block, try construct or boolean
  operator has complexity exactly 1.
\<close>

theorem cyclomatic_complexity_counts:
  "calculate_cyclomatic_complexity node =
     1 + length (filter (\<lambda>n. cls n \<in> set [''If'', ''While'', ''For'', ''AsyncFor'', ''With'', ''AsyncWith''])
                   (subtree node))
       + sum_list (map (\<lambda>n. length (field ''handlers'' n))
                   (filter (\<lambda>n. cls n = ''Try'') (subtree node)))
       + length (filter (\<lambda>n. cls n \<in> set [''And'', ''Or'']) (subtree node))
   \<and> (list_all (\<lambda>n. cls n \<notin> set [''If'', ''While'', ''For'', ''AsyncFor'', ''With'', ''AsyncWith'',
                                     ''Try'', ''And'', ''Or'']) (subtree node)
        \<longrightarrow> calculate_cyclomatic_complexity node = 1)"
proof -
  let ?B = "\<lambda>n. cls n \<in> set [''If'', ''While'', ''For'', ''AsyncFor'', ''With'', ''AsyncWith'']"
  let ?T = "\<lambda>n. cls n = ''Try''"
  let ?O = "\<lambda>n. cls n \<in> set [''And'', ''Or'']"
  let ?h = "\<lambda>n. length (field ''handlers'' n)"
  have eq: "calculate_cyclomatic_complexity node =
      1 + length (filter ?B (subtree node)) + sum_list (map ?h (filter ?T (subtree node)))
        + length (filter ?O (subtree node))"
    unfolding complexity_as_sum sum_complexity_weight
    using length_filter_mset_cong[OF mset_walk, of ?B node]
          length_filter_mset_cong[OF mset_walk, of ?O node]
          sum_list_filter_mset_cong[OF mset_walk, of ?h ?T node]
    by simp
  have one: "calculate_cyclomatic_complexity node = 1"
    if "list_all (\<lambda>n. cls n \<notin> set [''If'', ''While'', ''For'', ''AsyncFor'', ''With'', ''AsyncWith'',
                                     ''Try'', ''And'', ''Or'']) (subtree node)"
  proof -
    from that have "filter ?B (subtree node) = []" "filter ?T (subtree node) = []"
      "filter ?O (subtree node) = []"
      by (auto simp: list_all_iff filter_empty_conv)
    with eq show ?thesis by simp
  qed
  from eq one show ?thesis by blast
qed

theorem cyclomatic_complexity_counts_witness:
  "list_all (\<lambda>n. cls n \<notin> set [''If'', ''While'', ''For'', ''AsyncFor'', ''With'', ''AsyncWith'',
                                     ''Try'', ''And'', ''Or'']) (subtree plain_function)
   \<and> calculate_cyclomatic_complexity plain_function = 1"
  using cyclomatic_complexity_counts[of plain_function]
  by (simp add: plain_function_def node_defs)

text \<open>
  The claim as stated fails on a function whose only compound statement is a with-block: it
  has no branch, loop, try construct or boolean operator, and its complexity is 2.
\<close>

theorem with_block_complexity_counterexample:
  "map cls (subtree with_function) =
     [''FunctionDef'', ''arguments'', ''With'', ''withitem'', ''Name'', ''Load'', ''Pass'']
   \<and> calculate_cyclomatic_complexity with_function = 2"
  by (simp add: with_function_def node_defs calculate_cyclomatic_complexity_def walk_def)

subsection \<open>Bare exception handlers\<close>

lemma sum_list_map_add:
  fixes f g :: "'a \<Rightarrow> nat"
  shows "sum_list (map (\<lambda>x. f x + k * g x) xs) = sum_list (map f xs) + k * sum_list (map g xs)"
  by (induction xs) (simp_all add: algebra_simps)

lemma sum_list_concat_map:
  fixes f :: "'b \<Rightarrow> nat"
  shows "sum_list (map f (concat (map g xs))) = sum_list (map (\<lambda>x. sum_list (map f (g x))) xs)"
  by (induction xs) simp_all

lemma sum_list_concat_lists:
  fixes xss :: "nat list list"
  shows "sum_list (concat xss) = sum_list (map sum_list xss)"
  by (induction xss) simp_all

lemma length_concat_map:
  "length (filter P (concat (map g xs))) = sum_list (map (\<lambda>x. length (filter P (g x))) xs)"
  by (induction xs) simp_all

lemma function_defs_Node:
  "function_defs (Node c s l el i v cs) =
     (if c = ''FunctionDef'' then [Node c s l el i v cs] else [])
     @ concat (map function_defs cs)"
  unfolding function_defs_def by (simp add: filter_concat_map)

lemma field_Node: "field f (Node c s l el i v cs) = filter (\<lambda>x. slot x = f) cs"
  by (simp add: field_def)

text \<open>\<open>enclosed_bare_excepts\<close> lists the bare handlers of the tree, each once.\<close>

lemma map_fst_enclosed_bare_excepts:
  "map fst (enclosed_bare_excepts k t) =
     filter (\<lambda>n. cls n = ''ExceptHandler'' \<and> field ''type'' n = []) (subtree t)"
proof (induction t arbitrary: k)
  case (Node c s l el i v cs)
  have "concat (map (\<lambda>x. map fst (enclosed_bare_excepts k' x)) cs) =
        concat (map (\<lambda>x. filter (\<lambda>n. cls n = ''ExceptHandler'' \<and> field ''type'' n = [])
          (subtree x)) cs)" for k'
    by (rule arg_cong[where f = concat], rule map_cong) (simp_all add: Node.IH)
  then show ?case
    by (simp add: Let_def map_concat_map filter_concat_map o_def field_Node)
qed

text \<open>
  The number of bare handlers at line \<open>L\<close> in the function definitions of a tree, every
  handler counted once for every function definition whose subtree holds it, is the sum
  over the bare handlers of the tree at line \<open>L\<close> of the number of function definitions
  around each.
\<close>

lemma enclosing_function_defs:
  "sum_list (map snd (filter (\<lambda>(h, n). lineno h = L) (enclosed_bare_excepts k t))) =
     sum_list (map (\<lambda>f. length (filter (\<lambda>n. (cls n = ''ExceptHandler'' \<and> field ''type'' n = [])
                                        \<and> lineno n = L) (subtree f))) (function_defs t))
     + k * length (filter (\<lambda>n. (cls n = ''ExceptHandler'' \<and> field ''type'' n = [])
                                \<and> lineno n = L) (subtree t))"
proof (induction t arbitrary: k)
  case (Node c s l el i v cs)
  let ?n = "Node c s l el i v cs"
  let ?B = "\<lambda>n. (cls n = ''ExceptHandler'' \<and> field ''type'' n = []) \<and> lineno n = L"
  let ?cnt = "\<lambda>t. length (filter ?B (subtree t))"
  let ?N = "\<lambda>t. sum_list (map ?cnt (function_defs t))"
  let ?S = "\<lambda>k t. sum_list (map snd (filter (\<lambda>(h, n). lineno h = L) (enclosed_bare_excepts k t)))"
  define k' where "k' = (if c = ''FunctionDef'' then Suc k else k)"
  define b :: nat where "b = (if ?B ?n then 1 else 0)"
  have kids: "sum_list (map (?S k') cs) = sum_list (map ?N cs) + k' * sum_list (map ?cnt cs)"
  proof -
    have "map (?S k') cs = map (\<lambda>x. ?N x + k' * ?cnt x) cs"
      by (rule map_cong) (simp_all add: Node.IH)
    then show ?thesis by (simp only: sum_list_map_add)
  qed
  have S: "?S k ?n = b * k' + sum_list (map (?S k') cs)"
    by (simp add: Let_def k'_def b_def filter_concat_map map_concat_map sum_list_concat_map
        sum_list_concat_lists o_def field_Node)
  have cnt: "?cnt ?n = b + sum_list (map ?cnt cs)"
    by (simp add: b_def length_concat_map field_Node)
  have N: "?N ?n = (if c = ''FunctionDef'' then ?cnt ?n else 0) + sum_list (map ?N cs)"
    by (simp only: function_defs_Node) (simp add: sum_list_concat_map)
  show ?case
    unfolding S N kids cnt by (simp add: k'_def algebra_simps)
qed

lemma bare_issue_lines_analyze_file:
  assumes "fs fp = Some (Text source_code)" "ast_parse rt source_code = Parsed tree"
    and "map_of (fst (analyze_file rt fs fp e)) (py ''error'') = None"
  shows "map line_number (filter is_bare_except_issue (result_issues (fst (analyze_file rt fs fp e))))
         = map lineno (concat (map bare_excepts (function_defs tree)))"
  using analyze_file_completed[where fs = fs and fp = fp and rt = rt and e = e
          and source_code = source_code and tree = tree] assms
  by (simp add: bare_issue_lines_run_analyzers)

lemma length_filter_conj_map:
  "length (filter (\<lambda>i. P i \<and> f i = L) xs) = length (filter (\<lambda>l. l = L) (map f (filter P xs)))"
  by (induction xs) simp_all

lemma length_filter_bare_excepts:
  "length (filter (\<lambda>n. lineno n = L) (bare_excepts f)) =
     length (filter (\<lambda>n. (cls n = ''ExceptHandler'' \<and> field ''type'' n = []) \<and> lineno n = L)
       (subtree f))"
proof -
  have "length (filter (\<lambda>n. lineno n = L) (bare_excepts f)) =
        length (filter (\<lambda>n. (cls n = ''ExceptHandler'' \<and> field ''type'' n = []) \<and> lineno n = L)
          (walk f))"
    by (simp add: bare_excepts_def conj_commute)
  also have "\<dots> = length (filter (\<lambda>n. (cls n = ''ExceptHandler'' \<and> field ''type'' n = [])
                                      \<and> lineno n = L) (subtree f))"
    by (rule length_filter_mset_cong[OF mset_walk])
  finally show ?thesis .
qed

text \<open>
  The law of the bare-except rule: in the result of a completed analysis, the number of
  issues of the rule at a line is the sum, over the bare handlers at that line, of the
  number of function definitions (\<open>def\<close>) around each.
\<close>

lemma bare_issues_at_line:
  assumes "fs fp = Some (Text source_code)" "ast_parse rt source_code = Parsed tree"
    and "map_of (fst (analyze_file rt fs fp e)) (py ''error'') = None"
  shows "length (filter (\<lambda>i. is_bare_except_issue i \<and> line_number i = L)
            (result_issues (fst (analyze_file rt fs fp e))))
         = sum_list (map snd (filter (\<lambda>(h, n). lineno h = L) (enclosed_bare_excepts 0 tree)))"
proof -
  have "length (filter (\<lambda>i. is_bare_except_issue i \<and> line_number i = L)
            (result_issues (fst (analyze_file rt fs fp e))))
        = length (filter (\<lambda>l. l = L)
            (map lineno (concat (map bare_excepts (function_defs tree)))))"
    unfolding length_filter_conj_map
    using bare_issue_lines_analyze_file[where fs = fs and fp = fp and rt = rt and e = e
          and source_code = source_code and tree = tree] assms
    by simp
  also have "\<dots> = sum_list (map (\<lambda>f. length (filter (\<lambda>n. lineno n = L) (bare_excepts f)))
                        (function_defs tree))"
    by (simp add: filter_map o_def length_concat_map)
  also have "\<dots> = sum_list (map snd (filter (\<lambda>(h, n). lineno h = L)
                        (enclosed_bare_excepts 0 tree)))"
    by (simp add: length_filter_bare_excepts enclosing_function_defs)
  finally show ?thesis .
qed

lemma sum_list_at_most_one:
  "list_all (\<lambda>(h, n). P h \<longrightarrow> n \<le> Suc 0) xs \<Longrightarrow>
     sum_list (map snd (filter (\<lambda>(h, n). P h) xs)) = length (filter (\<lambda>(h, n). P h \<and> n = Suc 0) xs)"
  by (induction xs) auto

text \<open>
  Claim C4, amended. In the result of a completed analysis of a source file, the
  warning/logic issues with confidence 0.9 at a line are as many as the bare exception
  handlers at that line that lie inside a function definition (\<open>def\<close>, not \<open>async def\<close>),
  provided that none of the bare handlers at that line lies inside a function definition
  nested in another one. So a bare handler inside exactly one function definition gives
  rise to exactly one issue, at its line, and a bare handler outside every function
  definition to none, whatever the rest of the file is.
\<close>

theorem bare_except_issue_per_handler:
  assumes "fs fp = Some (Text source_code)" "ast_parse rt source_code = Parsed tree"
    and "map_of (fst (analyze_file rt fs fp e)) (py ''error'') = None"
    and "list_all (\<lambda>(h, n). lineno h = L \<longrightarrow> n \<le> 1) (enclosed_bare_excepts 0 tree)"
  shows "length (filter (\<lambda>i. is_bare_except_issue i \<and> line_number i = L)
            (result_issues (fst (analyze_file rt fs fp e))))
         = length (filter (\<lambda>(h, n). lineno h = L \<and> n = 1) (enclosed_bare_excepts 0 tree))"
  using bare_issues_at_line[where fs = fs and fp = fp and rt = rt and e = e
          and source_code = source_code and tree = tree and L = L]
    sum_list_at_most_one[of "\<lambda>h. lineno h = L" "enclosed_bare_excepts 0 tree"] assms
  by simp

lemma bare_issue_lines_example:
  assumes "height tree \<le> 450"
  shows "map line_number (filter is_bare_except_issue (result_issues (fst
          (analyze_file (example_runtime source tree) (single_file path source) path e))))
         = map lineno (concat (map bare_excepts (function_defs tree)))"
  by (simp add: example_analysis[OF assms] bare_issue_lines_run_analyzers)

theorem bare_except_issue_per_handler_witness:
  "single_file (py ''m.py'') mixed_try_source (py ''m.py'') = Some (Text mixed_try_source)
   \<and> ast_parse (example_runtime mixed_try_source mixed_try) mixed_try_source = Parsed mixed_try
   \<and> map_of (fst (analyze_file (example_runtime mixed_try_source mixed_try)
           (single_file (py ''m.py'') mixed_try_source) (py ''m.py'') empty_engine))
         (py ''error'') = None
   \<and> map (\<lambda>(h, n). (lineno h, n)) (enclosed_bare_excepts 0 mixed_try) = [(7, 1)]
   \<and> map (\<lambda>n. (ident n, lineno n)) (function_defs mixed_try)
       = [(py ''outer'', 1), (py ''inner'', 2), (py ''f'', 4)]
   \<and> length (filter (\<lambda>i. is_bare_except_issue i \<and> line_number i = 7) (result_issues (fst
        (analyze_file (example_runtime mixed_try_source mixed_try)
           (single_file (py ''m.py'') mixed_try_source) (py ''m.py'') empty_engine)))) = 1"
proof -
  let ?rt = "example_runtime mixed_try_source mixed_try"
  let ?fs = "single_file (py ''m.py'') mixed_try_source"
  have 1: "?fs (py ''m.py'') = Some (Text mixed_try_source)"
    by (simp add: single_file_def)
  have 2: "ast_parse ?rt mixed_try_source = Parsed mixed_try"
    by (simp add: example_runtime_def)
  have h: "height mixed_try \<le> 450"
    by (simp add: mixed_try_def node_defs)
  have 3: "map_of (fst (analyze_file ?rt ?fs (py ''m.py'') empty_engine)) (py ''error'') = None"
    by (simp add: example_analysis[OF h])
  have 4: "map (\<lambda>(h, n). (lineno h, n)) (enclosed_bare_excepts 0 mixed_try) = [(7, 1)]"
    by (simp add: mixed_try_def node_defs field_def)
  have 5: "map (\<lambda>n. (ident n, lineno n)) (function_defs mixed_try)
       = [(py ''outer'', 1), (py ''inner'', 2), (py ''f'', 4)]"
    by (simp add: mixed_try_def node_defs function_defs_def)
  have 6: "enclosed_bare_excepts 0 mixed_try =
      [(stmt ''ExceptHandler'' ''handlers'' 7 8 [stmt ''Pass'' ''body'' 8 8 []], 1)]"
    by (simp add: mixed_try_def node_defs field_def)
  from bare_except_issue_per_handler[where fs = ?fs and fp = "py ''m.py''"
      and source_code = mixed_try_source and tree = mixed_try and rt = ?rt
      and e = empty_engine and L = 7] 1 2 3 4 5
  show ?thesis unfolding 6 by (simp add: node_defs)
qed

text \<open>
  The claim as stated fails both ways: a bare handler at module level (line 3) yields no
  issue, and a bare handler in a function nested in another function (line 5) yields two.
\<close>

theorem bare_except_counterexample:
  "map lineno (bare_excepts module_try) = [3]
   \<and> map line_number (filter is_bare_except_issue (result_issues (fst
        (analyze_file (example_runtime module_try_source module_try)
           (single_file (py ''m.py'') module_try_source) (py ''m.py'') empty_engine)))) = []
   \<and> map lineno (bare_excepts nested_try) = [5]
   \<and> map line_number (filter is_bare_except_issue (result_issues (fst
        (analyze_file (example_runtime nested_try_source nested_try)
           (single_file (py ''m.py'') nested_try_source) (py ''m.py'') empty_engine)))) = [5, 5]"
proof -
  have a: "map lineno (bare_excepts module_try) = [3]"
    by (simp add: module_try_def node_defs bare_excepts_def walk_def field_def)
  have b: "map lineno (concat (map bare_excepts (function_defs module_try))) = []"
    by (simp add: module_try_def node_defs function_defs_def)
  have c: "map lineno (bare_excepts nested_try) = [5]"
    by (simp add: nested_try_def node_defs bare_excepts_def walk_def field_def)
  have d: "map lineno (concat (map bare_excepts (function_defs nested_try))) = [5, 5]"
    by (simp add: nested_try_def node_defs function_defs_def bare_excepts_def walk_def field_def)
  have hm: "height module_try \<le> 450" by (simp add: module_try_def node_defs)
  have hn: "height nested_try \<le> 450" by (simp add: nested_try_def node_defs)
  have e: "map line_number (filter is_bare_except_issue (result_issues (fst
        (analyze_file (example_runtime module_try_source module_try)
           (single_file (py ''m.py'') module_try_source) (py ''m.py'') empty_engine)))) = []"
    by (simp only: bare_issue_lines_example[OF hm] b)
  have f: "map line_number (filter is_bare_except_issue (result_issues (fst
        (analyze_file (example_runtime nested_try_source nested_try)
           (single_file (py ''m.py'') nested_try_source) (py ''m.py'') empty_engine)))) = [5, 5]"
    by (simp only: bare_issue_lines_example[OF hn] d)
  from a c e f show ?thesis by simp
qed

subsection \<open>Hard-coded secrets\<close>

lemma secret_issue_lines_analyze_file:
  assumes "fs fp = Some (Text source_code)" "ast_parse rt source_code = Parsed tree"
    and "map_of (fst (analyze_file rt fs fp e)) (py ''error'') = None"
  shows "map line_number (filter is_hardcoded_secret_issue
            (result_issues (fst (analyze_file rt fs fp e))))
         = map lineno (filter (\<lambda>n. cls n = ''Assign'' \<and> hardcoded_secret rt n) (subtree tree))"
  using analyze_file_completed[where fs = fs and fp = fp and rt = rt and e = e
          and source_code = source_code and tree = tree] assms
  by (simp add: secret_issue_lines_run_analyzers)

lemma startswith_subset: "startswith xs p \<Longrightarrow> set p \<subseteq> set xs"
  by (induction xs p rule: startswith.induct) auto

lemma contains_subset: "contains xs sub \<Longrightarrow> set sub \<subseteq> set xs"
proof (induction xs)
  case Nil
  then show ?case by simp
next
  case (Cons x xs)
  then show ?case using startswith_subset[of "x # xs" sub] by auto
qed

lemma set_join_with: "set (join_with sep xs) \<subseteq> set sep \<union> \<Union> (set ` set xs)"
  by (induction sep xs rule: join_with.induct) auto

text \<open>
  The text that CPython 3.11 gives a list of \<open>Name\<close>, \<open>Tuple\<close> and \<open>List\<close> nodes holds the
  class names and the addresses, and no identifier: lowered, it has none of the letters
  \<open>k\<close>, \<open>r\<close> and \<open>w\<close>, and each of the four keywords has one of them.
\<close>

lemma list_str_letters:
  assumes "list_all (\<lambda>t. cls t \<in> set [''Name'', ''Tuple'', ''List''] \<and> hex_digits (address t)) ts"
  shows "set (list_str address ts) \<subseteq> set (py ''[<ast. object at 0x>], NameTupleList0123456789abcdef'')"
proof -
  have one: "set (object_repr address t) \<subseteq>
      set (py ''[<ast. object at 0x>], NameTupleList0123456789abcdef'')" if "t \<in> set ts" for t
  proof -
    from that assms have c: "cls t = ''Name'' \<or> cls t = ''Tuple'' \<or> cls t = ''List''"
      and h: "set (address t) \<subseteq> set (py ''0123456789abcdef'')"
      by (auto simp: list_all_iff hex_digits_def)
    have "set (py ''0123456789abcdef'') \<subseteq>
        set (py ''[<ast. object at 0x>], NameTupleList0123456789abcdef'')"
      by (simp add: py_def)
    with h have "set (address t) \<subseteq>
        set (py ''[<ast. object at 0x>], NameTupleList0123456789abcdef'')" by blast
    moreover have "set (py ''<ast.'' @ py (cls t) @ py '' object at 0x'' @ py ''>'') \<subseteq>
        set (py ''[<ast. object at 0x>], NameTupleList0123456789abcdef'')"
      using c by (auto simp: py_def)
    ultimately show ?thesis by (auto simp: object_repr_def)
  qed
  have "set (join_with (py '', '') (map (object_repr address) ts)) \<subseteq>
      set (py ''[<ast. object at 0x>], NameTupleList0123456789abcdef'')"
  proof (rule subset_trans[OF set_join_with])
    have "set (py '', '') \<subseteq> set (py ''[<ast. object at 0x>], NameTupleList0123456789abcdef'')"
      by (simp add: py_def)
    with one show "set (py '', '') \<union> \<Union> (set ` set (map (object_repr address) ts)) \<subseteq>
      set (py ''[<ast. object at 0x>], NameTupleList0123456789abcdef'')"
      by auto
  qed
  moreover have "set (py ''['') \<union> set (py '']'') \<subseteq>
      set (py ''[<ast. object at 0x>], NameTupleList0123456789abcdef'')"
    by (simp add: py_def)
  ultimately show ?thesis by (auto simp: list_str_def)
qed

lemma lowered_object_text:
  assumes "set xs \<subseteq> set (py ''[<ast. object at 0x>], NameTupleList0123456789abcdef'')"
  shows "107 \<notin> set (lower rt xs) \<and> 114 \<notin> set (lower rt xs) \<and> 119 \<notin> set (lower rt xs)"
proof -
  have "\<forall>c\<in>set (py ''[<ast. object at 0x>], NameTupleList0123456789abcdef'').
          c < 128 \<and> (if 65 \<le> c \<and> c \<le> 90 then c + 32 else c) \<notin> {107, 114, 119}"
    by (simp add: py_def)
  with assms have all: "\<forall>c\<in>set xs.
          c < 128 \<and> (if 65 \<le> c \<and> c \<le> 90 then c + 32 else c) \<notin> {107, 114, 119}"
    by blast
  then have "list_all (\<lambda>c. c < 128) xs" by (simp add: list_all_iff)
  then have "lower rt xs = ascii_lower xs" by (simp add: lower_def)
  with all show ?thesis by (auto simp: ascii_lower_def)
qed

lemma no_keyword_in_object_text:
  assumes "list_all (\<lambda>t. cls t \<in> set [''Name'', ''Tuple'', ''List''] \<and> hex_digits (address t)) ts"
  shows "\<not> list_ex (\<lambda>keyword. contains (lower rt (list_str address ts)) keyword) secret_keywords"
proof -
  have l: "107 \<notin> set (lower rt (list_str address ts))"
    "114 \<notin> set (lower rt (list_str address ts))"
    "119 \<notin> set (lower rt (list_str address ts))"
    using lowered_object_text[OF list_str_letters[OF assms], of rt] by simp_all
  have "\<not> contains (lower rt (list_str address ts)) (py ''password'')"
    using contains_subset[of "lower rt (list_str address ts)" "py ''password''"] l(3)
    by (auto simp: py_def)
  moreover have "\<not> contains (lower rt (list_str address ts)) (py ''secret'')"
    using contains_subset[of "lower rt (list_str address ts)" "py ''secret''"] l(2)
    by (auto simp: py_def)
  moreover have "\<not> contains (lower rt (list_str address ts)) (py ''key'')"
    using contains_subset[of "lower rt (list_str address ts)" "py ''key''"] l(1)
    by (auto simp: py_def)
  moreover have "\<not> contains (lower rt (list_str address ts)) (py ''token'')"
    using contains_subset[of "lower rt (list_str address ts)" "py ''token''"] l(1)
    by (auto simp: py_def)
  ultimately show ?thesis by (simp add: secret_keywords_def)
qed

text \<open>
  So with the text of CPython 3.11 the rule for hard-coded secrets reports no assignment to
  names, tuples or lists, whatever the names and the value are.
\<close>

lemma no_secret_in_object_text:
  assumes "str_targets rt = list_str address"
    and "list_all (\<lambda>t. cls t \<in> set [''Name'', ''Tuple'', ''List''] \<and> hex_digits (address t))
           (field ''targets'' node)"
  shows "\<not> hardcoded_secret rt node"
  using no_keyword_in_object_text[OF assms(2), of rt] assms(1)
  by (simp add: hardcoded_secret_def split: list.split constant_value.split)

lemma issues_password_module:
  "issues (run_analyzers (example_runtime password_source password_module) password_module
        (split_lines password_source) (py ''s.py'')) = []"
proof -
  have "\<not> hardcoded_secret (example_runtime password_source password_module) password_assign"
    by (rule no_secret_in_object_text[where address = "\<lambda>n. py ''7f6ac70c39a0''"])
       (simp_all add: example_runtime_def password_assign_def node_defs field_def hex_digits_def
          py_def)
  then have "visit_Assign (example_runtime password_source password_module) lines fp
      password_assign empty_engine = empty_engine" for lines fp
    by (simp add: visit_Assign_def)
  moreover have "cls password_assign = ''Assign''" "children password_assign =
      [named ''Name'' ''targets'' 1 1 (py ''password'') [leaf ''Store'' ''ctx''],
        Node ''Constant'' ''value'' 1 1 [] (Const_str (py ''supersecret123'')) []]"
    by (simp_all add: password_assign_def node_defs)
  ultimately show ?thesis
    unfolding issues_run_analyzers
    by (simp add: password_module_def subtree_unfold[of password_assign] node_defs work_def
        BusinessLogicVisitor_def PerformanceVisitor_def SecurityVisitor_def
        ArchitectureVisitor_def)
qed

text \<open>
  Claim C3 asks for a critical/security issue with confidence 0.8 when a string constant of
  more than 8 characters is assigned to a target whose text contains \<open>password\<close>, \<open>secret\<close>,
  \<open>key\<close> or \<open>token\<close>. \<open>visit_Assign\<close> searches the keywords in \<open>str(node.targets)\<close>, the
  text of a list of node objects, which names the class and the address of every node and
  not the variable: for the file whose only line is \<^verbatim>\<open>password = 'supersecret123'\<close> that text
  is \<open>[<ast.Name object at 0x7f6ac70c39a0>]\<close>, the condition of the rule is false, and the
  analysis completes (it has a quality score) with no issue at all.
\<close>

theorem hardcoded_secret_not_reported:
  "map (\<lambda>t. (cls t, ident t)) (field ''targets'' password_assign) = [(''Name'', py ''password'')]
   \<and> map const (field ''value'' password_assign) = [Const_str (py ''supersecret123'')]
   \<and> str_targets (example_runtime password_source password_module)
        (field ''targets'' password_assign) = py ''[<ast.Name object at 0x7f6ac70c39a0>]''
   \<and> hardcoded_secret (example_runtime password_source password_module) password_assign = False
   \<and> result_issues (fst (analyze_file (example_runtime password_source password_module)
        (single_file (py ''s.py'') password_source) (py ''s.py'') empty_engine)) = []
   \<and> result_score (fst (analyze_file (example_runtime password_source password_module)
        (single_file (py ''s.py'') password_source) (py ''s.py'') empty_engine)) = Some 100"
proof -
  let ?rt = "example_runtime password_source password_module"
  have a: "map (\<lambda>t. (cls t, ident t)) (field ''targets'' password_assign)
      = [(''Name'', py ''password'')]"
    by (simp add: password_assign_def node_defs field_def)
  have b: "map const (field ''value'' password_assign) = [Const_str (py ''supersecret123'')]"
    by (simp add: password_assign_def node_defs field_def)
  have c: "str_targets ?rt (field ''targets'' password_assign)
      = py ''[<ast.Name object at 0x7f6ac70c39a0>]''"
    by (simp add: example_runtime_def password_assign_def node_defs field_def list_str_def
        object_repr_def py_def)
  have d: "hardcoded_secret ?rt password_assign = False"
    using no_secret_in_object_text[where rt = ?rt and address = "\<lambda>n. py ''7f6ac70c39a0''"
        and node = password_assign]
    by (simp add: example_runtime_def password_assign_def node_defs field_def hex_digits_def
          py_def)
  have h: "height password_module \<le> 450"
    by (simp add: password_module_def password_assign_def node_defs)
  have e: "result_issues (fst (analyze_file ?rt (single_file (py ''s.py'') password_source)
        (py ''s.py'') empty_engine)) = []"
    by (simp add: example_analysis[OF h] issues_password_module)
  have f: "result_score (fst (analyze_file ?rt (single_file (py ''s.py'') password_source)
        (py ''s.py'') empty_engine)) = Some 100"
    by (simp add: example_analysis[OF h] calculate_quality_score_def issues_password_module)
  from a b c d e f show ?thesis by simp
qed

subsection \<open>Async functions\<close>

lemma function_metrics_analyze_file:
  assumes "fs fp = Some (Text source_code)" "ast_parse rt source_code = Parsed tree"
    and "map_of (fst (analyze_file rt fs fp e)) (py ''error'') = None"
  shows "map name (result_function_metrics (fst (analyze_file rt fs fp e)))
           = map ident (function_defs tree)"
    and "map line_start (result_function_metrics (fst (analyze_file rt fs fp e)))
           = map lineno (function_defs tree)"
  using analyze_file_completed[where fs = fs and fp = fp and rt = rt and e = e
          and source_code = source_code and tree = tree] assms
  by (simp_all add: function_metrics_fields_run_analyzers)

lemma no_async_function_metrics:
  "list_all (\<lambda>m. \<not> async_function m) (result_function_metrics (fst (analyze_file rt fs fp e)))"
proof (cases rule: analyze_file_cases[of rt fs fp e])
  case no_entries
  then show ?thesis by simp
next
  case (completed source_code tree)
  then have "map async_function (result_function_metrics (fst (analyze_file rt fs fp e)))
           = map (\<lambda>n. False) (function_defs tree)"
    by (simp add: function_metrics_fields_run_analyzers)
  then have "\<forall>b\<in>set (map async_function (result_function_metrics (fst (analyze_file rt fs fp e)))). \<not> b"
    by simp
  then show ?thesis by (simp add: list_all_iff)
qed

text \<open>
  Claim C10. The business logic analyzer does not see async function definitions: at an
  \<open>AsyncFunctionDef\<close> node the visitor does nothing of its own, so no metrics record is made
  and name, complexity and parameter count of the async function are not checked; the
  function metrics of the result of a completed analysis are, in order, those of the
  \<open>FunctionDef\<close> nodes of the tree; and in every result of \<open>analyze_file\<close> every function
  metrics record has its async flag false.
\<close>

theorem async_functions_invisible:
  "list_all (\<lambda>m. \<not> async_function m) (result_function_metrics (fst (analyze_file rt fs fp e)))
   \<and> (fs fp = Some (Text source_code) \<and> ast_parse rt source_code = Parsed tree
        \<and> map_of (fst (analyze_file rt fs fp e)) (py ''error'') = None \<longrightarrow>
        map name (result_function_metrics (fst (analyze_file rt fs fp e)))
          = map ident (function_defs tree)
        \<and> map line_start (result_function_metrics (fst (analyze_file rt fs fp e)))
          = map lineno (function_defs tree))
   \<and> (cls node = ''AsyncFunctionDef'' \<longrightarrow>
        BusinessLogicVisitor rt' lines path node e' = (None, e'))"
  using no_async_function_metrics[of rt fs fp e]
    function_metrics_analyze_file[where fs = fs and fp = fp and rt = rt and e = e
      and source_code = source_code and tree = tree]
  by (simp add: BusinessLogicVisitor_def)

theorem async_functions_invisible_witness:
  "single_file (py ''a.py'') async_source (py ''a.py'') = Some (Text async_source)
   \<and> ast_parse (example_runtime async_source async_module) async_source = Parsed async_module
   \<and> map_of (fst (analyze_file (example_runtime async_source async_module)
           (single_file (py ''a.py'') async_source) (py ''a.py'') empty_engine))
         (py ''error'') = None
   \<and> map cls (filter (\<lambda>n. cls n = ''AsyncFunctionDef'' \<or> cls n = ''FunctionDef'')
         (subtree async_module)) = [''AsyncFunctionDef'', ''FunctionDef'']
   \<and> map name (result_function_metrics (fst
        (analyze_file (example_runtime async_source async_module)
           (single_file (py ''a.py'') async_source) (py ''a.py'') empty_engine)))
       = [py ''get_value'']
   \<and> list_all (\<lambda>m. \<not> async_function m) (result_function_metrics (fst
        (analyze_file (example_runtime async_source async_module)
           (single_file (py ''a.py'') async_source) (py ''a.py'') empty_engine)))"
proof -
  let ?rt = "example_runtime async_source async_module"
  have 1: "single_file (py ''a.py'') async_source (py ''a.py'') = Some (Text async_source)"
    by (simp add: single_file_def)
  have 2: "ast_parse ?rt async_source = Parsed async_module"
    by (simp add: example_runtime_def)
  have 3: "map ident (function_defs async_module) = [py ''get_value'']"
    by (simp add: async_module_def node_defs function_defs_def)
  have 4: "map cls (filter (\<lambda>n. cls n = ''AsyncFunctionDef'' \<or> cls n = ''FunctionDef'')
         (subtree async_module)) = [''AsyncFunctionDef'', ''FunctionDef'']"
    by (simp add: async_module_def node_defs)
  have h: "height async_module \<le> 450"
    by (simp add: async_module_def node_defs)
  have 5: "map_of (fst (analyze_file ?rt (single_file (py ''a.py'') async_source) (py ''a.py'')
         empty_engine)) (py ''error'') = None"
    by (simp add: example_analysis[OF h])
  from async_functions_invisible[where fs = "single_file (py ''a.py'') async_source"
      and fp = "py ''a.py''" and source_code = async_source and tree = async_module
      and rt = ?rt and e = empty_engine] 1 2 3 4 5
  show ?thesis by simp
qed

subsection \<open>Repeated analysis\<close>

text \<open>
  Claim C8. Running \<open>analyze_file\<close> twice in sequence on the same unchanged file yields the
  same result: the second run, started from the engine the first run left, returns what the
  first returned, and so does a run from any other engine. (The dictionary that a run returns
  holds lists built anew from the engine's lists, so the reset of the engine by a later run
  does not reach it; the results are therefore compared as values. The runtime is taken to
  be the same in both runs.)
\<close>

theorem analyze_file_twice:
  "fst (analyze_file rt fs fp (snd (analyze_file rt fs fp e))) = fst (analyze_file rt fs fp e)
   \<and> fst (analyze_file rt fs fp e') = fst (analyze_file rt fs fp e)"
  using fst_analyze_file_any_engine[of rt fs fp "snd (analyze_file rt fs fp e)" e]
    fst_analyze_file_any_engine[of rt fs fp e' e]
  by simp

theorem analyze_file_twice_witness:
  "map line_number (filter is_bare_except_issue (issues (snd
        (analyze_file (example_runtime function_try_source function_try)
           (single_file (py ''m.py'') function_try_source) (py ''m.py'') empty_engine)))) = [4]
   \<and> fst (analyze_file (example_runtime function_try_source function_try)
           (single_file (py ''m.py'') function_try_source) (py ''m.py'')
           (snd (analyze_file (example_runtime function_try_source function_try)
              (single_file (py ''m.py'') function_try_source) (py ''m.py'') empty_engine)))
       = fst (analyze_file (example_runtime function_try_source function_try)
           (single_file (py ''m.py'') function_try_source) (py ''m.py'') empty_engine)"
proof -
  let ?rt = "example_runtime function_try_source function_try"
  let ?fs = "single_file (py ''m.py'') function_try_source"
  have h: "height function_try \<le> 450"
    by (simp add: function_try_def node_defs)
  have 4: "map lineno (concat (map bare_excepts (function_defs function_try))) = [4]"
    by (simp add: function_try_def node_defs function_defs_def bare_excepts_def walk_def field_def)
  have "map line_number (filter is_bare_except_issue (issues (snd
        (analyze_file ?rt ?fs (py ''m.py'') empty_engine)))) = [4]"
    by (simp add: example_analysis[OF h] bare_issue_lines_run_analyzers 4)
  with analyze_file_twice[of ?rt ?fs "py ''m.py''" empty_engine empty_engine]
  show ?thesis by simp
qed

subsection \<open>A missing file\<close>

text \<open>
  Claim C5, amended. For a path that does not exist, neither as given nor, when it is
  relative, under the project root, \<open>analyze_file\<close> and the tool built on it return a value,
  the dictionary whose only entry is \<open>error\<close>, the text \<open>err_not_found\<close> followed by the path
  queried; the engine is left as it was.
\<close>

theorem analyze_missing_file:
  assumes "fs fp = None" and "isabs fp \<or> fs (path_join project_path fp) = None"
  shows "analyze_file rt fs fp e = ([(py ''error'', PyStr (err_not_found @ fp))], e)
       \<and> analyze_code_intelligence rt fs fp e
           = ([(py ''error'', PyStr (err_not_found @ fp))], e)"
  using assms
  by (auto simp: analyze_file_def analyze_code_intelligence_def Let_def exists_path_def)

theorem analyze_missing_file_witness:
  "single_file (py ''m.py'') module_try_source (py ''missing.py'') = None
   \<and> single_file (py ''m.py'') module_try_source (path_join project_path (py ''missing.py'')) = None
   \<and> analyze_code_intelligence (example_runtime module_try_source module_try)
         (single_file (py ''m.py'') module_try_source) (py ''missing.py'') empty_engine
       = ([(py ''error'', PyStr (err_not_found @ py ''missing.py''))], empty_engine)"
proof -
  have 1: "single_file (py ''m.py'') module_try_source (py ''missing.py'') = None"
    by (simp add: single_file_def)
  have 2: "single_file (py ''m.py'') module_try_source (path_join project_path (py ''missing.py'')) = None"
    by (simp add: single_file_def path_join_def project_path_def py_def)
  from analyze_missing_file[where fs = "single_file (py ''m.py'') module_try_source"
      and fp = "py ''missing.py''" and rt = "example_runtime module_try_source module_try"
      and e = empty_engine] 1 2
  show ?thesis by simp
qed

text \<open>
  The claim as stated fails on the rest of its content: the error dictionary has the single
  key \<open>error\<close>; it holds neither the current directory nor a list of available files.
\<close>

theorem missing_file_error_counterexample:
  "map fst (fst (analyze_code_intelligence (example_runtime module_try_source module_try)
         (single_file (py ''m.py'') module_try_source) (py ''missing.py'') empty_engine))
     = [py ''error'']
   \<and> map_of (fst (analyze_code_intelligence (example_runtime module_try_source module_try)
         (single_file (py ''m.py'') module_try_source) (py ''missing.py'') empty_engine))
       (py ''current_directory'') = None
   \<and> map_of (fst (analyze_code_intelligence (example_runtime module_try_source module_try)
         (single_file (py ''m.py'') module_try_source) (py ''missing.py'') empty_engine))
       (py ''available_files'') = None"
proof -
  have "analyze_code_intelligence (example_runtime module_try_source module_try)
         (single_file (py ''m.py'') module_try_source) (py ''missing.py'') empty_engine
       = ([(py ''error'', PyStr (err_not_found @ py ''missing.py''))], empty_engine)"
    by (simp add: analyze_code_intelligence_def analyze_file_def single_file_def Let_def
        exists_path_def isabs_def path_join_def project_path_def py_def)
  then show ?thesis by simp
qed

subsection \<open>Refactoring suggestions\<close>

lemma fold_append_concat:
  "fold (\<lambda>x acc. acc @ g x) xs a = a @ concat (map g xs)"
  by (induction xs arbitrary: a) simp_all

lemma suggest_refactoring_parsed:
  "ast_parse rt code = Parsed tree \<Longrightarrow>
     suggest_refactoring rt code = concat (map suggest_node (walk tree))"
  by (simp add: suggest_refactoring_def fold_append_concat)

text \<open>
  Claim C6, amended. \<open>suggest_refactoring\<close> tests \<open>end_lineno - lineno > 50\<close>: a function
  without parameters whose last line is 51 lines after its first (it spans 52 lines) yields a
  \<open>function_length\<close> suggestion and no \<open>parameter_count\<close> suggestion, and one whose last
  line is 50 lines after its first (it spans 51 lines) yields neither. The suggestions for a
  source are those of the nodes of its tree.
\<close>

theorem function_length_boundary:
  assumes "cls node = ''FunctionDef''" and "args_args node = []"
  shows "map (\<lambda>d. map_of d (py ''type'')) (suggest_node node) =
           (if 50 < int (end_lineno node) - int (lineno node)
            then [Some (py ''function_length'')] else [])
       \<and> (end_lineno node = lineno node + 51 \<longrightarrow>
            map (\<lambda>d. map_of d (py ''type'')) (suggest_node node) = [Some (py ''function_length'')])
       \<and> (end_lineno node = lineno node + 50 \<longrightarrow> suggest_node node = [])
       \<and> (ast_parse rt code = Parsed tree \<longrightarrow>
            suggest_refactoring rt code = concat (map suggest_node (walk tree)))"
  using assms by (simp add: suggest_node_def suggest_refactoring_parsed)

theorem function_length_boundary_witness:
  "map (\<lambda>d. map_of d (py ''type''))
     (suggest_refactoring (example_runtime lines_1_to_52_source lines_1_to_52) lines_1_to_52_source)
   = [Some (py ''function_length'')]
   \<and> map suggest_node (function_defs lines_1_to_51) = [[]]"
proof -
  let ?f = "named ''FunctionDef'' ''body'' 1 52 (py ''f'')
          [leaf ''arguments'' ''args'',
           stmt ''Pass'' ''body'' 2 2 [],
           stmt ''Pass'' ''body'' 52 52 []]"
  let ?g = "named ''FunctionDef'' ''body'' 1 51 (py ''f'')
          [leaf ''arguments'' ''args'',
           stmt ''Pass'' ''body'' 2 2 [],
           stmt ''Pass'' ''body'' 51 51 []]"
  let ?rt = "example_runtime lines_1_to_52_source lines_1_to_52"
  have 1: "cls ?f = ''FunctionDef''" "args_args ?f = []" "end_lineno ?f = lineno ?f + 51"
    by (simp_all add: node_defs args_args_def field_def)
  have 2: "ast_parse ?rt lines_1_to_52_source = Parsed lines_1_to_52"
    by (simp add: example_runtime_def)
  have 3: "concat (map suggest_node (walk lines_1_to_52)) = suggest_node ?f"
    by (simp add: lines_1_to_52_def node_defs walk_def suggest_node_def args_args_def field_def)
  have 4: "cls ?g = ''FunctionDef''" "args_args ?g = []" "end_lineno ?g = lineno ?g + 50"
    by (simp_all add: node_defs args_args_def field_def)
  have 5: "function_defs lines_1_to_51 = [?g]"
    by (simp add: lines_1_to_51_def function_defs_def node_defs)
  from function_length_boundary[where node = ?f and rt = ?rt
      and code = lines_1_to_52_source and tree = lines_1_to_52] 1 2 3
  have a: "map (\<lambda>d. map_of d (py ''type'')) (suggest_refactoring ?rt lines_1_to_52_source)
            = [Some (py ''function_length'')]"
    by simp
  from function_length_boundary[where node = ?g and rt = ?rt
      and code = lines_1_to_52_source and tree = lines_1_to_52] 4
  have b: "suggest_node ?g = []" by simp
  from a b 5 show ?thesis by simp
qed

text \<open>
  The claim as stated fails: a function without parameters that spans exactly 51 lines,
  lines 1 to 51, yields no suggestion.
\<close>

theorem function_of_51_lines_counterexample:
  "map (\<lambda>n. (lineno n, end_lineno n, length (args_args n))) (function_defs lines_1_to_51)
     = [(1, 51, 0)]
   \<and> suggest_refactoring (example_runtime lines_1_to_51_source lines_1_to_51)
         lines_1_to_51_source = []"
  by (simp add: suggest_refactoring_def example_runtime_def lines_1_to_51_def node_defs walk_def
      suggest_node_def args_args_def field_def function_defs_def)

subsection \<open>Nested loops\<close>

lemma analyze_performance_patterns_example:
  assumes "height tree \<le> 450"
  shows "fst (analyze_performance_patterns (example_runtime source tree) tree lines fp
            empty_engine) = None"
    and "issues (snd (analyze_performance_patterns (example_runtime source tree) tree lines fp
            empty_engine)) =
     concat (map (\<lambda>n. issues (work (PerformanceVisitor lines fp) n empty_engine)) (subtree tree))"
proof -
  have p: "fst (PerformanceVisitor lines fp n a) = None" for n a
    by (simp add: PerformanceVisitor_def)
  have "analyze_performance_patterns (example_runtime source tree) tree lines fp empty_engine =
      (None, complete_visit (work (PerformanceVisitor lines fp)) tree empty_engine)"
    unfolding analyze_performance_patterns_def
    by (rule NodeVisitor_visit_completes[OF p]) (simp add: example_runtime_def assms)
  then show
    "fst (analyze_performance_patterns (example_runtime source tree) tree lines fp
            empty_engine) = None"
    "issues (snd (analyze_performance_patterns (example_runtime source tree) tree lines fp
            empty_engine)) =
     concat (map (\<lambda>n. issues (work (PerformanceVisitor lines fp) n empty_engine)) (subtree tree))"
    by (simp_all add: issues_complete_visit[OF appends_PerformanceVisitor])
qed

text \<open>
  Claim C7 asks for a warning/performance issue with confidence 0.8 at every \<open>for\<close> or
  \<open>while\<close> loop whose body contains another loop. The performance visitor has \<open>visit_For\<close>
  and no \<open>visit_While\<close>: for a \<open>while\<close> loop with a \<open>for\<close> loop in its body the analyzer
  returns without an exception and emits no issue, whereas for the same nesting with the
  \<open>for\<close> loop outside it emits the issue at line 1.
\<close>

theorem nested_loop_under_while:
  "map (\<lambda>n. (cls n, lineno n)) (filter (\<lambda>n. cls n \<in> set [''For'', ''While''])
       (subtree while_over_for)) = [(''While'', 1), (''For'', 2)]
   \<and> fst (analyze_performance_patterns (example_runtime while_over_for_source while_over_for)
         while_over_for (split_lines while_over_for_source) (py ''w.py'') empty_engine) = None
   \<and> issues (snd (analyze_performance_patterns
         (example_runtime while_over_for_source while_over_for)
         while_over_for (split_lines while_over_for_source) (py ''w.py'') empty_engine)) = []
   \<and> fst (analyze_performance_patterns (example_runtime for_over_while_source for_over_while)
         for_over_while (split_lines for_over_while_source) (py ''w.py'') empty_engine) = None
   \<and> map (\<lambda>i. (severity i, category i, line_number i, confidence i))
         (issues (snd (analyze_performance_patterns
            (example_runtime for_over_while_source for_over_while)
            for_over_while (split_lines for_over_while_source) (py ''w.py'') empty_engine)))
       = [(py ''warning'', py ''performance'', 1, 0.8)]"
proof -
  have a: "map (\<lambda>n. (cls n, lineno n)) (filter (\<lambda>n. cls n \<in> set [''For'', ''While''])
       (subtree while_over_for)) = [(''While'', 1), (''For'', 2)]"
    by (simp add: while_over_for_def node_defs)
  have hw: "height while_over_for \<le> 450" by (simp add: while_over_for_def node_defs)
  have hf: "height for_over_while \<le> 450" by (simp add: for_over_while_def node_defs)
  have b: "issues (snd (analyze_performance_patterns
         (example_runtime while_over_for_source while_over_for)
         while_over_for lines (py ''w.py'') empty_engine)) = []"
    for lines
    unfolding analyze_performance_patterns_example(2)[OF hw]
    by (simp add: while_over_for_def node_defs work_def PerformanceVisitor_def visit_For_def
        find_string_concatenations_def walk_def field_def Let_def)
  have c: "map (\<lambda>i. (severity i, category i, line_number i, confidence i))
         (issues (snd (analyze_performance_patterns
            (example_runtime for_over_while_source for_over_while)
            for_over_while lines (py ''w.py'') empty_engine)))
       = [(py ''warning'', py ''performance'', 1, 0.8)]" for lines
    unfolding analyze_performance_patterns_example(2)[OF hf]
    by (simp add: for_over_while_def node_defs work_def PerformanceVisitor_def visit_For_def
        find_string_concatenations_def walk_def field_def Let_def)
  from a b c analyze_performance_patterns_example(1)[OF hw]
    analyze_performance_patterns_example(1)[OF hf]
  show ?thesis by simp
qed

subsection \<open>Technical debt\<close>

lemma split_lines_no_newline: "10 \<notin> set ys \<Longrightarrow> split_lines ys = [ys]"
  by (induction ys) simp_all

lemma split_lines_not_Nil [simp]: "split_lines xs \<noteq> []"
  by (induction xs) (simp_all split: list.split)

lemma split_lines_append:
  "10 \<notin> set ys \<Longrightarrow>
     split_lines (xs @ ys) = butlast (split_lines xs) @ [last (split_lines xs) @ ys]"
proof (induction xs)
  case Nil
  then show ?case by (simp add: split_lines_no_newline)
next
  case (Cons c xs)
  then show ?case
    by (cases "split_lines xs") (auto split: list.split)
qed

lemma contains_head: "contains xs (c # sub) \<Longrightarrow> c \<in> set xs"
  by (induction xs) auto

lemma filter_conj_const:
  "filter (\<lambda>l. P l \<and> b) xs = (if b then filter P xs else [])"
  by (induction xs) auto

lemma long_functions_assess_file:
  "long_functions (assess_file rt fs fp d) = long_functions d + file_long_functions fs fp"
  by (simp add: assess_file_def file_long_functions_def Let_def filter_conj_const
      split: option.split file_entry.split)

lemma long_functions_fold_assess_file:
  "long_functions (fold (assess_file rt fs) fps d) =
     long_functions d + (\<Sum>fp\<leftarrow>fps. file_long_functions fs fp)"
  by (induction fps arbitrary: d) (simp_all add: long_functions_assess_file)

lemma long_functions_calculate_tech_debt:
  "long_functions (debt_factors (calculate_tech_debt rt os_walk fs)) =
     (\<Sum>fp\<leftarrow>python_files os_walk. file_long_functions fs fp)"
  by (simp add: calculate_tech_debt_def Let_def long_functions_fold_assess_file)

lemma file_long_functions_pos:
  "0 < file_long_functions fs fp \<longleftrightarrow>
     (\<exists>content. fs fp = Some (Text content) \<and> 2000 < length content
        \<and> (\<exists>l\<in>set (split_lines content). contains l (py ''def '')))"
  by (auto simp: file_long_functions_def filter_empty_conv split: option.splits file_entry.splits)

text \<open>
  Claim C9, amended. For every project tree the factor \<open>long_functions\<close> is the sum, over
  the \<open>.py\<close> files, of what each file adds; a readable file of more than 2000 characters
  adds the number of its lines that contain \<open>def \<close>; and a file adds nothing exactly when
  it does not both exceed 2000 characters and contain a line with \<open>def \<close>.
\<close>

theorem long_functions_factor:
  "long_functions (debt_factors (calculate_tech_debt rt os_walk fs)) =
     (\<Sum>fp\<leftarrow>python_files os_walk. file_long_functions fs fp)
   \<and> long_functions (assess_file rt fs fp d) = long_functions d + file_long_functions fs fp
   \<and> (fs fp = Some (Text content) \<and> 2000 < length content \<longrightarrow>
        file_long_functions fs fp
          = length (filter (\<lambda>l. contains l (py ''def '')) (split_lines content)))
   \<and> (file_long_functions fs fp = 0 \<longleftrightarrow>
        \<not> (\<exists>content. fs fp = Some (Text content) \<and> 2000 < length content
             \<and> (\<exists>l\<in>set (split_lines content). contains l (py ''def ''))))"
  using long_functions_calculate_tech_debt[of rt os_walk fs] long_functions_assess_file[of rt fs fp d]
    file_long_functions_pos[of fs fp]
  by (auto simp: file_long_functions_def)

lemma python_files_project_walk: "python_files project_walk = [py ''/p/a.py'', py ''/p/b.py'']"
  by (simp add: python_files_def project_walk_def endswith_def path_join_def py_def)

lemma lines_two_defs_source:
  "split_lines two_defs_source =
     [py ''def f():'', py ''    pass'', py ''def g():'', py ''    pass'', py ''#'' @ replicate 2000 35]"
  unfolding two_defs_source_def
  by (subst split_lines_append) (simp_all add: py_def)

lemma file_long_functions_a: "file_long_functions project_files (py ''/p/a.py'') = 2"
proof -
  have "\<not> contains (py ''#'' @ replicate 2000 35) (py ''def '')"
    by (auto simp: py_def dest: contains_head)
  moreover have "contains (py ''def f():'') (py ''def '')" "contains (py ''def g():'') (py ''def '')"
    "\<not> contains (py ''    pass'') (py ''def '')"
    by (simp_all add: py_def)
  moreover have "2000 < length two_defs_source" by (simp add: two_defs_source_def py_def)
  ultimately show ?thesis
    by (simp add: file_long_functions_def project_files_def lines_two_defs_source)
qed

lemma file_long_functions_b: "file_long_functions project_files (py ''/p/b.py'') = 0"
  by (simp add: file_long_functions_def project_files_def short_def_source_def py_def)

theorem long_functions_factor_witness:
  "project_files (py ''/p/a.py'') = Some (Text two_defs_source)
   \<and> 2000 < length two_defs_source
   \<and> long_functions (debt_factors (calculate_tech_debt (example_runtime [] (leaf ''Module'' [])) project_walk project_files)) = 2
   \<and> file_long_functions project_files (py ''/p/b.py'') = 0"
proof -
  have 1: "project_files (py ''/p/a.py'') = Some (Text two_defs_source)"
    by (simp add: project_files_def)
  have 2: "2000 < length two_defs_source" by (simp add: two_defs_source_def py_def)
  from long_functions_factor[where os_walk = project_walk and fs = project_files
      and fp = "py ''/p/a.py''" and content = two_defs_source
      and rt = "example_runtime [] (leaf ''Module'' [])"]
    1 2 python_files_project_walk file_long_functions_a file_long_functions_b
  show ?thesis by simp
qed

text \<open>
  The claim as stated, one increment for a file, fails: a file of more than 2000 characters
  with two lines that contain \<open>def \<close> adds 2.
\<close>

theorem long_functions_counterexample:
  "length (filter (\<lambda>l. contains l (py ''def '')) (split_lines two_defs_source)) = 2
   \<and> long_functions (debt_factors (calculate_tech_debt (example_runtime [] (leaf ''Module'' []))
        [(py ''/p'', [], [py ''a.py''])] project_files)) = 2"
proof -
  have "\<not> contains (py ''#'' @ replicate 2000 35) (py ''def '')"
    by (auto simp: py_def dest: contains_head)
  moreover have "contains (py ''def f():'') (py ''def '')" "contains (py ''def g():'') (py ''def '')"
    "\<not> contains (py ''    pass'') (py ''def '')"
    by (simp_all add: py_def)
  ultimately have a: "length (filter (\<lambda>l. contains l (py ''def '')) (split_lines two_defs_source)) = 2"
    by (simp add: lines_two_defs_source)
  have "python_files [(py ''/p'', [], [py ''a.py''])] = [py ''/p/a.py'']"
    by (simp add: python_files_def endswith_def path_join_def py_def)
  then have "long_functions (debt_factors (calculate_tech_debt (example_runtime [] (leaf ''Module'' []))
        [(py ''/p'', [], [py ''a.py''])] project_files)) = 2"
    by (simp add: long_functions_calculate_tech_debt file_long_functions_a)
  with a show ?thesis by simp
qed

end
